theory Spec2Isabelle
  imports Complex_Main "HOL-Library.Log_Nat" "HOL-Library.Word"
begin

section \<open>Python values used by image_metadata_extractor.py\<close>

text \<open>
  The module raises through Python's built-in exceptions. Every raise that the modelled
  code can reach is a constructor here; \<open>UnidentifiedImageError\<close> and \<open>ExifFormatError\<close>
  are the failures of the two external collaborators (the container decoder and the
  tag-directory parser).
\<close>

datatype error =
    FileNotFoundError
  | PermissionError
  | UnidentifiedImageError
  | ExifFormatError
  | IndexError
  | AttributeError
  | ZeroDivisionError
  | IsADirectoryError

subsection \<open>Decimal text of integers: \<open>str(int)\<close>\<close>

definition digit_char :: "nat \<Rightarrow> char" where
  "digit_char d = ''0123456789'' ! d"

fun str_nat :: "nat \<Rightarrow> string" where
  "str_nat n = (if n < 10 then [digit_char n] else str_nat (n div 10) @ [digit_char (n mod 10)])"

declare str_nat.simps [simp del]

definition str_int :: "int \<Rightarrow> string" where
  "str_int i = (if i < 0 then ''-'' @ str_nat (nat (- i)) else str_nat (nat i))"

subsection \<open>exifread's Ratio\<close>

text \<open>
  \<open>exifread.utils.Ratio\<close> is a subclass of \<open>fractions.Fraction\<close> with the properties
  \<open>num\<close> and \<open>den\<close>. \<open>Ratio n d\<close> holds the pair as it was read from the file. The
  constructor normalises as \<open>Fraction.__new__\<close> does (divide both by the gcd, the sign
  on the numerator); when the denominator is zero \<open>Fraction\<close> raises ZeroDivisionError
  and \<open>Ratio.__new__\<close> catches it and stores the raw pair.
\<close>

datatype ratio = Ratio int int

fun ratio_num :: "ratio \<Rightarrow> int" where
  "ratio_num (Ratio n d) =
     (if d = 0 then n else n div (if d < 0 then - gcd n d else gcd n d))"

fun ratio_den :: "ratio \<Rightarrow> int" where
  "ratio_den (Ratio n d) =
     (if d = 0 then 0 else d div (if d < 0 then - gcd n d else gcd n d))"

text \<open>\<open>Fraction.__str__\<close>: the numerator alone when the denominator is 1.\<close>

definition str_ratio :: "ratio \<Rightarrow> string" where
  "str_ratio r =
     (if ratio_den r = 1 then str_int (ratio_num r)
      else str_int (ratio_num r) @ ''/'' @ str_int (ratio_den r))"

subsection \<open>Tags\<close>

text \<open>
  An \<open>IfdTag\<close> carries \<open>printable\<close> (what \<open>str(tag)\<close> returns) and \<open>values\<close>. In
  exifread \<open>values\<close> is a \<open>str\<close> for an ASCII tag, and a list otherwise: of ints for
  the integer and undefined types, of Ratio for the rational types. The list is empty when
  the entry's count is zero. An element read by \<open>values[i]\<close> is an \<open>item\<close>; indexing
  a \<open>str\<close> gives a one-character \<open>str\<close>.
\<close>

datatype tag_values =
    AsciiValues string
  | IntValues "int list"
  | RatioValues "ratio list"

datatype item = IntItem int | RatioItem ratio | StrItem string

record IfdTag =
  ifd_printable :: string
  ifd_values :: tag_values

type_synonym tags = "string \<rightharpoonup> IfdTag"

text \<open>\<open>values[i]\<close> for a non-negative literal index: IndexError out of range.\<close>

fun py_index :: "tag_values \<Rightarrow> nat \<Rightarrow> error + item" where
  "py_index (AsciiValues s) i = (if i < length s then Inr (StrItem [s ! i]) else Inl IndexError)"
| "py_index (IntValues xs) i = (if i < length xs then Inr (IntItem (xs ! i)) else Inl IndexError)"
| "py_index (RatioValues rs) i = (if i < length rs then Inr (RatioItem (rs ! i)) else Inl IndexError)"

text \<open>\<open>isinstance(x, Fraction)\<close>, and \<open>str(x)\<close> as an f-string field renders it.\<close>

fun is_Fraction :: "item \<Rightarrow> bool" where
  "is_Fraction (RatioItem _) = True"
| "is_Fraction _ = False"

fun str_item :: "item \<Rightarrow> string" where
  "str_item (IntItem n) = str_int n"
| "str_item (RatioItem r) = str_ratio r"
| "str_item (StrItem s) = s"

text \<open>
  The integer an element compares equal to, if any: what \<open>x == 1\<close> and a lookup in a
  dict with int keys decide. An int equals itself; a Fraction equals the int \<open>k\<close> when
  it is \<open>k/1\<close> (a zero-denominator Ratio equals no int, and its hash does not raise); a
  \<open>str\<close> equals no int.
\<close>

fun int_of_item :: "item \<Rightarrow> int option" where
  "int_of_item (IntItem n) = Some n"
| "int_of_item (RatioItem r) = (if ratio_den r = 1 then Some (ratio_num r) else None)"
| "int_of_item (StrItem _) = None"

text \<open>\<open>d.get(key, default)\<close> for a dict literal with int keys.\<close>

definition dict_get :: "(int \<times> string) list \<Rightarrow> item \<Rightarrow> string \<Rightarrow> string" where
  "dict_get d key dflt =
     (case int_of_item key of
        None \<Rightarrow> dflt
      | Some k \<Rightarrow> (case map_of d k of None \<Rightarrow> dflt | Some v \<Rightarrow> v))"

text \<open>\<open>str(tags.get(name, default))\<close>: the printable of a present tag.\<close>

definition str_tag :: "tags \<Rightarrow> string \<Rightarrow> string \<Rightarrow> string" where
  "str_tag tgs name dflt = (case tgs name of None \<Rightarrow> dflt | Some t \<Rightarrow> ifd_printable t)"

section \<open>The Rational formatter\<close>

text \<open>
  \<^verbatim>\<open>
  def _fraction_to_readable(fraction, default_value='Unknown'):
      if not fraction:
          return default_value
      if isinstance(fraction.values[0], Fraction):
          return str(fraction.values[0])
      return f"{fraction.values[0]}/{fraction.values[1]}"
  \<close>
  The argument is \<open>tags.get(name)\<close>: None or an IfdTag. IfdTag defines neither
  \<open>__bool__\<close> nor \<open>__len__\<close>, so a present tag is truthy.
\<close>

definition fraction_to_readable :: "IfdTag option \<Rightarrow> string \<Rightarrow> error + string" where
  "fraction_to_readable fraction default_value =
     (case fraction of
        None \<Rightarrow> Inr default_value
      | Some t \<Rightarrow>
          (case py_index (ifd_values t) 0 of
             Inl e \<Rightarrow> Inl e
           | Inr v0 \<Rightarrow>
               if is_Fraction v0 then Inr (str_item v0)
               else (case py_index (ifd_values t) 1 of
                       Inl e \<Rightarrow> Inl e
                     | Inr v1 \<Rightarrow> Inr (str_item v0 @ ''/'' @ str_item v1))))"

section \<open>The enum resolvers\<close>

text \<open>
  Ten resolvers share one shape: \<open>if tag: return table.get(tag.values[0], 'Unknown')\<close>,
  \<open>else: return 'N/A'\<close>.
\<close>

definition get_exposure_mode :: "tags \<Rightarrow> error + string" where
  "get_exposure_mode tgs =
     (case tgs ''EXIF ExposureMode'' of
        None \<Rightarrow> Inr ''N/A''
      | Some t \<Rightarrow>
          (case py_index (ifd_values t) 0 of
             Inl e \<Rightarrow> Inl e
           | Inr v \<Rightarrow> Inr (dict_get [(0, ''Auto''), (1, ''Manual''), (2, ''Auto bracket'')] v ''Unknown'')))"

definition get_white_balance :: "tags \<Rightarrow> error + string" where
  "get_white_balance tgs =
     (case tgs ''EXIF WhiteBalance'' of
        None \<Rightarrow> Inr ''N/A''
      | Some t \<Rightarrow>
          (case py_index (ifd_values t) 0 of
             Inl e \<Rightarrow> Inl e
           | Inr v \<Rightarrow> Inr (dict_get [(0, ''Auto''), (1, ''Manual'')] v ''Unknown'')))"

text \<open>Flash compares with \<open>==\<close> in an if/elif chain instead of a table.\<close>

definition get_flash_info :: "tags \<Rightarrow> error + string" where
  "get_flash_info tgs =
     (case tgs ''EXIF Flash'' of
        None \<Rightarrow> Inr ''N/A''
      | Some t \<Rightarrow>
          (case py_index (ifd_values t) 0 of
             Inl e \<Rightarrow> Inl e
           | Inr flash_value \<Rightarrow>
               if int_of_item flash_value = Some 0 then Inr ''Flash did not fire''
               else if int_of_item flash_value = Some 1 then Inr ''Flash fired''
               else Inr ''Unknown''))"

text \<open>
  Orientation and Color Space test \<open>isinstance(tag, IfdTag)\<close> and give the table
  lookup the default \<open>'N/A'\<close>.
\<close>

definition get_orientation :: "tags \<Rightarrow> error + string" where
  "get_orientation tgs =
     (case tgs ''Image Orientation'' of
        None \<Rightarrow> Inr ''N/A''
      | Some t \<Rightarrow>
          (case py_index (ifd_values t) 0 of
             Inl e \<Rightarrow> Inl e
           | Inr orientation \<Rightarrow>
               Inr (dict_get
                 [(1, ''Normal''),
                  (2, ''Mirrored horizontally''),
                  (3, ''Rotated 180 degrees''),
                  (4, ''Mirrored vertically''),
                  (5, ''Mirrored horizontally and rotated 270 degrees CW''),
                  (6, ''Rotated 90 degrees CW''),
                  (7, ''Mirrored horizontally and rotated 90 degrees CW''),
                  (8, ''Rotated 270 degrees CW'')] orientation ''N/A'')))"

definition get_color_space :: "tags \<Rightarrow> error + string" where
  "get_color_space tgs =
     (case tgs ''EXIF ColorSpace'' of
        None \<Rightarrow> Inr ''N/A''
      | Some t \<Rightarrow>
          (case py_index (ifd_values t) 0 of
             Inl e \<Rightarrow> Inl e
           | Inr color_space \<Rightarrow> Inr (dict_get [(1, ''sRGB''), (2, ''Adobe RGB'')] color_space ''N/A'')))"

definition get_metering_mode :: "tags \<Rightarrow> error + string" where
  "get_metering_mode tgs =
     (case tgs ''EXIF MeteringMode'' of
        None \<Rightarrow> Inr ''N/A''
      | Some t \<Rightarrow>
          (case py_index (ifd_values t) 0 of
             Inl e \<Rightarrow> Inl e
           | Inr v \<Rightarrow>
               Inr (dict_get
                 [(0, ''Unknown''),
                  (1, ''Average''),
                  (2, ''Center-weighted average''),
                  (3, ''Spot''),
                  (4, ''Multi-spot''),
                  (5, ''Pattern''),
                  (6, ''Partial'')] v ''Unknown'')))"

definition get_exposure_program :: "tags \<Rightarrow> error + string" where
  "get_exposure_program tgs =
     (case tgs ''EXIF ExposureProgram'' of
        None \<Rightarrow> Inr ''N/A''
      | Some t \<Rightarrow>
          (case py_index (ifd_values t) 0 of
             Inl e \<Rightarrow> Inl e
           | Inr v \<Rightarrow>
               Inr (dict_get
                 [(0, ''Not defined''),
                  (1, ''Manual''),
                  (2, ''Normal program''),
                  (3, ''Aperture priority''),
                  (4, ''Shutter priority''),
                  (5, ''Creative program''),
                  (6, ''Action program''),
                  (7, ''Portrait mode''),
                  (8, ''Landscape mode'')] v ''Unknown'')))"

definition get_scene_capture_type :: "tags \<Rightarrow> error + string" where
  "get_scene_capture_type tgs =
     (case tgs ''EXIF SceneCaptureType'' of
        None \<Rightarrow> Inr ''N/A''
      | Some t \<Rightarrow>
          (case py_index (ifd_values t) 0 of
             Inl e \<Rightarrow> Inl e
           | Inr v \<Rightarrow>
               Inr (dict_get
                 [(0, ''Standard''), (1, ''Landscape''), (2, ''Portrait''), (3, ''Night scene'')]
                 v ''Unknown'')))"

definition get_resolution_unit :: "tags \<Rightarrow> error + string" where
  "get_resolution_unit tgs =
     (case tgs ''Image ResolutionUnit'' of
        None \<Rightarrow> Inr ''N/A''
      | Some t \<Rightarrow>
          (case py_index (ifd_values t) 0 of
             Inl e \<Rightarrow> Inl e
           | Inr v \<Rightarrow>
               Inr (dict_get
                 [(1, ''No absolute unit of measurement''), (2, ''Inches''), (3, ''Centimeters'')]
                 v ''Unknown'')))"

definition get_ycbcr_positioning :: "tags \<Rightarrow> error + string" where
  "get_ycbcr_positioning tgs =
     (case tgs ''Image YCbCrPositioning'' of
        None \<Rightarrow> Inr ''N/A''
      | Some t \<Rightarrow>
          (case py_index (ifd_values t) 0 of
             Inl e \<Rightarrow> Inl e
           | Inr v \<Rightarrow> Inr (dict_get [(1, ''Centered''), (2, ''Co-sited'')] v ''Unknown'')))"

definition get_focus_mode :: "tags \<Rightarrow> error + string" where
  "get_focus_mode tgs =
     (case tgs ''EXIF FocusMode'' of
        None \<Rightarrow> Inr ''N/A''
      | Some t \<Rightarrow>
          (case py_index (ifd_values t) 0 of
             Inl e \<Rightarrow> Inl e
           | Inr v \<Rightarrow> Inr (dict_get [(0, ''Manual''), (1, ''Auto'')] v ''Unknown'')))"

definition get_shooting_mode :: "tags \<Rightarrow> error + string" where
  "get_shooting_mode tgs =
     (case tgs ''EXIF ShootingMode'' of
        None \<Rightarrow> Inr ''N/A''
      | Some t \<Rightarrow>
          (case py_index (ifd_values t) 0 of
             Inl e \<Rightarrow> Inl e
           | Inr v \<Rightarrow>
               Inr (dict_get [(0, ''Normal''), (1, ''Portrait''), (2, ''Landscape'')] v ''Unknown'')))"

text \<open>
  \<^verbatim>\<open>
  def _get_noise_reduction(tags):
      noise_reduction_tag = tags.get('EXIF NoiseReduction')
      if noise_reduction_tag:
          return 'On' if noise_reduction_tag.values[0] == 1 else 'Off'
      else:
          return 'N/A'
  \<close>
\<close>

definition get_noise_reduction :: "tags \<Rightarrow> error + string" where
  "get_noise_reduction tgs =
     (case tgs ''EXIF NoiseReduction'' of
        None \<Rightarrow> Inr ''N/A''
      | Some t \<Rightarrow>
          (case py_index (ifd_values t) 0 of
             Inl e \<Rightarrow> Inl e
           | Inr v \<Rightarrow> Inr (if int_of_item v = Some 1 then ''On'' else ''Off'')))"

section \<open>Floats\<close>

text \<open>
  A Python \<open>float\<close> is an IEEE 754 binary64 value. \<open>PyFloat s m\<close> is the finite
  value with sign bit \<open>s\<close> (True: negative) and magnitude \<open>m\<close>, so that \<open>-0.0\<close> and
  \<open>0.0\<close> differ as they do in Python. Arithmetic rounds the exact result to the nearest
  binary64 value, ties to even, with gradual underflow. Infinities and NaN are not
  modelled: the components of an EXIF rational are 32-bit integers, and no operation of
  this module on such values leaves the finite range.
\<close>

datatype pyfloat = PyFloat bool rat

fun fneg :: "pyfloat \<Rightarrow> bool" where
  "fneg (PyFloat s m) = s"

fun fmag :: "pyfloat \<Rightarrow> rat" where
  "fmag (PyFloat s m) = m"

definition pow2 :: "int \<Rightarrow> rat" where
  "pow2 e = (if 0 \<le> e then 2 ^ nat e else 1 / 2 ^ nat (- e))"

definition pow10 :: "int \<Rightarrow> rat" where
  "pow10 e = (if 0 \<le> e then 10 ^ nat e else 1 / 10 ^ nat (- e))"

definition round_half_even :: "rat \<Rightarrow> int" where
  "round_half_even q =
     (let f = \<lfloor>q\<rfloor>; r = q - of_int f
      in if r < 1 / 2 then f else if 1 / 2 < r then f + 1 else if even f then f else f + 1)"

text \<open>
  \<open>floor_log2 q\<close> is the \<open>k\<close> with \<open>2^k \<le> q < 2^(k+1)\<close>, for \<open>q > 0\<close>: with
  \<open>q = a/b\<close> it is the difference of the bit lengths of \<open>a\<close> and \<open>b\<close>, or one less.
\<close>

definition floor_log2 :: "rat \<Rightarrow> int" where
  "floor_log2 q =
     (let k = int (floorlog 2 (nat (fst (quotient_of q)))) - int (floorlog 2 (nat (snd (quotient_of q))))
      in if pow2 k \<le> q then k else k - 1)"

text \<open>
  The nearest binary64 magnitude: 53 significant bits, the unit in the last place never
  below \<open>2^-1074\<close>.
\<close>

definition round_b64 :: "rat \<Rightarrow> rat" where
  "round_b64 q =
     (if q = 0 then 0
      else let e = max (floor_log2 q - 52) (- 1074)
           in of_int (round_half_even (q / pow2 e)) * pow2 e)"

definition float_of_int :: "int \<Rightarrow> pyfloat" where
  "float_of_int n = PyFloat (n < 0) (round_b64 (of_int \<bar>n\<bar>))"

definition float_quot :: "pyfloat \<Rightarrow> pyfloat \<Rightarrow> pyfloat" where
  "float_quot a b = PyFloat (fneg a \<noteq> fneg b) (round_b64 (fmag a / fmag b))"

text \<open>\<open>a / b\<close> on floats raises ZeroDivisionError when \<open>b\<close> is \<open>0.0\<close> or \<open>-0.0\<close>.\<close>

definition float_div :: "pyfloat \<Rightarrow> pyfloat \<Rightarrow> error + pyfloat" where
  "float_div a b = (if fmag b = 0 then Inl ZeroDivisionError else Inr (float_quot a b))"

definition float_mul :: "pyfloat \<Rightarrow> pyfloat \<Rightarrow> pyfloat" where
  "float_mul a b = PyFloat (fneg a \<noteq> fneg b) (round_b64 (fmag a * fmag b))"

definition signed_value :: "pyfloat \<Rightarrow> rat" where
  "signed_value a = (if fneg a then - fmag a else fmag a)"

text \<open>An exact sum of zero is \<open>-0.0\<close> only when both operands are negative.\<close>

definition float_add :: "pyfloat \<Rightarrow> pyfloat \<Rightarrow> pyfloat" where
  "float_add a b =
     (let s = signed_value a + signed_value b
      in if s = 0 then PyFloat (fneg a \<and> fneg b) 0 else PyFloat (s < 0) (round_b64 \<bar>s\<bar>))"

subsection \<open>Formatting floats\<close>

definition pad_zeros :: "nat \<Rightarrow> string \<Rightarrow> string" where
  "pad_zeros n s = replicate (n - length s) (CHR ''0'') @ s"

text \<open>
  The format specs \<open>.5f\<close> and \<open>.2f\<close>: the exact value rounded to \<open>p\<close> decimals, ties
  to even, the sign bit shown also when the digits are all zero.
\<close>

definition format_fixed :: "nat \<Rightarrow> pyfloat \<Rightarrow> string" where
  "format_fixed p x =
     (let q = nat (round_half_even (fmag x * 10 ^ p))
      in (if fneg x then ''-'' else []) @ str_nat (q div 10 ^ p) @ ''.'' @ pad_zeros p (str_nat (q mod 10 ^ p)))"

text \<open>
  An f-string field without a format spec renders a float as \<open>repr\<close> does: the shortest
  decimal digit string that converts back to the same float, in positional notation when
  the decimal point position \<open>dp\<close> satisfies \<open>-4 < dp \<le> 16\<close> and in exponent notation
  otherwise. \<open>decpt m\<close> is the \<open>e\<close> with \<open>10^(e-1) \<le> m < 10^e\<close>.
\<close>

definition decpt :: "rat \<Rightarrow> int" where
  "decpt m =
     (if 1 \<le> m then int (floorlog 10 (nat \<lfloor>m\<rfloor>))
      else 1 - int (floorlog 10 (nat (\<lceil>1 / m\<rceil> - 1))))"

text \<open>
  With \<open>k\<close> digits the candidates are the two neighbours \<open>lo\<close> and \<open>lo + 1\<close> of \<open>m\<close> in
  units of \<open>10^(decpt m - k)\<close>; one that converts back to \<open>m\<close> is taken, the nearer of the
  two when both do (the even one on a tie).
\<close>

definition digits_at :: "rat \<Rightarrow> nat \<Rightarrow> (int \<times> int) option" where
  "digits_at m k =
     (let e = decpt m - int k;
          lo = \<lfloor>m / pow10 e\<rfloor>;
          hi = lo + 1;
          lo_ok = (round_b64 (of_int lo * pow10 e) = m);
          hi_ok = (round_b64 (of_int hi * pow10 e) = m);
          dlo = m - of_int lo * pow10 e;
          dhi = of_int hi * pow10 e - m
      in if lo_ok \<and> hi_ok then
           (if dlo < dhi \<or> (dlo = dhi \<and> even lo) then Some (lo, e) else Some (hi, e))
         else if lo_ok then Some (lo, e)
         else if hi_ok then Some (hi, e)
         else None)"

fun first_digits :: "rat \<Rightarrow> nat list \<Rightarrow> (int \<times> int) option" where
  "first_digits m [] = None"
| "first_digits m (k # ks) = (case digits_at m k of Some r \<Rightarrow> Some r | None \<Rightarrow> first_digits m ks)"

definition shortest_digits :: "rat \<Rightarrow> int \<times> int" where
  "shortest_digits m =
     (case first_digits m [1 ..< 18] of
        Some r \<Rightarrow> r
      | None \<Rightarrow> (round_half_even (m / pow10 (decpt m - 17)), decpt m - 17))"

definition strip_trailing_zeros :: "string \<Rightarrow> string" where
  "strip_trailing_zeros s = rev (dropWhile (\<lambda>c. c = CHR ''0'') (rev s))"

definition float_repr :: "pyfloat \<Rightarrow> string" where
  "float_repr x =
     (if fneg x then ''-'' else []) @
     (if fmag x = 0 then ''0.0''
      else
        let ds0 = str_nat (nat (fst (shortest_digits (fmag x))));
            dp = snd (shortest_digits (fmag x)) + int (length ds0);
            ds = strip_trailing_zeros ds0
        in if dp \<le> - 4 \<or> 16 < dp then
             take 1 ds @ (if length ds \<le> 1 then [] else ''.'' @ drop 1 ds) @ ''e'' @
             (if dp - 1 < 0 then ''-'' else ''+'') @ pad_zeros 2 (str_nat (nat \<bar>dp - 1\<bar>))
           else if dp \<le> 0 then ''0.'' @ replicate (nat (- dp)) (CHR ''0'') @ ds
           else if int (length ds) \<le> dp then ds @ replicate (nat dp - length ds) (CHR ''0'') @ ''.0''
           else take (nat dp) ds @ ''.'' @ drop (nat dp) ds)"

section \<open>The GPS converter\<close>

text \<open>
  \<^verbatim>\<open>
  def _convert_to_degrees(value):
      d = float(value.values[0].num) / float(value.values[0].den)
      m = float(value.values[1].num) / float(value.values[1].den)
      s = float(value.values[2].num) / float(value.values[2].den)
      return d + (m / 60.0) + (s / 3600.0)
  \<close>
  \<open>ratio_to_float vs i\<close> is one of the three lines: IndexError when the element is
  missing, AttributeError when it is not a Ratio (an int and a str have no attribute
  \<open>num\<close>), ZeroDivisionError when its denominator is zero.
\<close>

definition ratio_to_float :: "tag_values \<Rightarrow> nat \<Rightarrow> error + pyfloat" where
  "ratio_to_float vs i =
     (case py_index vs i of
        Inl e \<Rightarrow> Inl e
      | Inr v \<Rightarrow>
          (case v of
             RatioItem r \<Rightarrow> float_div (float_of_int (ratio_num r)) (float_of_int (ratio_den r))
           | _ \<Rightarrow> Inl AttributeError))"

definition convert_to_degrees :: "IfdTag \<Rightarrow> error + pyfloat" where
  "convert_to_degrees v =
     (case ratio_to_float (ifd_values v) 0 of
        Inl e \<Rightarrow> Inl e
      | Inr d \<Rightarrow>
          (case ratio_to_float (ifd_values v) 1 of
             Inl e \<Rightarrow> Inl e
           | Inr m \<Rightarrow>
               (case ratio_to_float (ifd_values v) 2 of
                  Inl e \<Rightarrow> Inl e
                | Inr s \<Rightarrow>
                    Inr (float_add (float_add d (float_quot m (PyFloat False 60)))
                           (float_quot s (PyFloat False 3600))))))"

text \<open>\<open>ref.values[0] == 'S'\<close>: IndexError on empty values; only a str equals a str.\<close>

definition first_is :: "IfdTag \<Rightarrow> string \<Rightarrow> error + bool" where
  "first_is t s =
     (case py_index (ifd_values t) 0 of
        Inl e \<Rightarrow> Inl e
      | Inr v \<Rightarrow> Inr (v = StrItem s))"

definition degree_sign :: char where
  "degree_sign = CHR 0xB0"

text \<open>
  The block under \<open>if lat and lat_ref and lon and lon_ref:\<close>, returning the entries it
  adds to \<open>gps_info\<close> (none when one of the four tags is absent).
\<close>

definition gps_position :: "tags \<Rightarrow> error + (string \<times> string) list" where
  "gps_position tgs =
     (case tgs ''GPS GPSLatitude'' of None \<Rightarrow> Inr [] | Some lat \<Rightarrow>
     (case tgs ''GPS GPSLatitudeRef'' of None \<Rightarrow> Inr [] | Some lat_ref \<Rightarrow>
     (case tgs ''GPS GPSLongitude'' of None \<Rightarrow> Inr [] | Some lon \<Rightarrow>
     (case tgs ''GPS GPSLongitudeRef'' of None \<Rightarrow> Inr [] | Some lon_ref \<Rightarrow>
     (case convert_to_degrees lat of Inl e \<Rightarrow> Inl e | Inr latitude0 \<Rightarrow>
     (case convert_to_degrees lon of Inl e \<Rightarrow> Inl e | Inr longitude0 \<Rightarrow>
     (case first_is lat_ref ''S'' of Inl e \<Rightarrow> Inl e | Inr south \<Rightarrow>
     (case first_is lon_ref ''W'' of Inl e \<Rightarrow> Inl e | Inr west \<Rightarrow>
        let latitude = (if south then float_mul latitude0 (float_of_int (- 1)) else latitude0);
            longitude = (if west then float_mul longitude0 (float_of_int (- 1)) else longitude0)
        in Inr
          [(''Latitude'',
              format_fixed 5 latitude @ [degree_sign] @ '' '' @ (if south then ''S'' else ''N'')),
           (''Longitude'',
              format_fixed 5 longitude @ [degree_sign] @ '' '' @ (if west then ''W'' else ''E'')),
           (''Google Maps Link'',
              ''https://www.google.com/maps?q='' @ float_repr latitude @ '','' @ float_repr longitude)]))))))))"

text \<open>The block under \<open>if alt:\<close>.\<close>

definition gps_altitude :: "tags \<Rightarrow> error + (string \<times> string) list" where
  "gps_altitude tgs =
     (case tgs ''GPS GPSAltitude'' of
        None \<Rightarrow> Inr []
      | Some alt \<Rightarrow>
          (case ratio_to_float (ifd_values alt) 0 of
             Inl e \<Rightarrow> Inl e
           | Inr a \<Rightarrow> Inr [(''Altitude'', format_fixed 2 a @ '' meters'')]))"

section \<open>The report\<close>

text \<open>
  The report is a dict from section name to section, in insertion order. A section is a
  dict from field label to value, again in order, or a bare string (the GPS section's
  \<open>'N/A'\<close>). A value is a string, an int (the file size), or an object of the
  container decoder's that is passed through unread (\<open>'x\<close>: the entries of \<open>img.info\<close>).
\<close>

datatype 'x pyval = PStr string | PInt int | PObj 'x

datatype 'x report_section = Fields "(string \<times> 'x pyval) list" | Sentinel string

type_synonym 'x report = "(string \<times> 'x report_section) list"

definition str_fields :: "(string \<times> string) list \<Rightarrow> (string \<times> 'x pyval) list" where
  "str_fields kvs = map (\<lambda>kv. (fst kv, PStr (snd kv))) kvs"

text \<open>
  The items of a dict literal are evaluated in order, and the first one that raises ends
  the evaluation with its exception.
\<close>

fun collect :: "(string \<times> (error + 'v)) list \<Rightarrow> error + (string \<times> 'v) list" where
  "collect [] = Inr []"
| "collect ((k, Inl e) # rest) = Inl e"
| "collect ((k, Inr v) # rest) =
     (case collect rest of Inl e \<Rightarrow> Inl e | Inr kvs \<Rightarrow> Inr ((k, v) # kvs))"

section \<open>The GPS section\<close>

text \<open>
  \<^verbatim>\<open>
      gps_info = {}
      if lat and lat_ref and lon and lon_ref:
          ...
      if alt:
          gps_info['Altitude'] = ...
      return gps_info if gps_info else 'N/A'
  \<close>
\<close>

definition extract_gps_info :: "tags \<Rightarrow> error + 'x report_section" where
  "extract_gps_info tgs =
     (case gps_position tgs of
        Inl e \<Rightarrow> Inl e
      | Inr pos \<Rightarrow>
          (case gps_altitude tgs of
             Inl e \<Rightarrow> Inl e
           | Inr alt \<Rightarrow>
               let gps_info = pos @ alt
               in Inr (if gps_info = [] then Sentinel ''N/A'' else Fields (str_fields gps_info))))"

section \<open>The remaining resolvers\<close>

definition join_comma :: "string list \<Rightarrow> string" where
  "join_comma ss = (case ss of [] \<Rightarrow> [] | s # rest \<Rightarrow> s @ concat (map (\<lambda>t. '', '' @ t) rest))"

text \<open>
  \<open>f"{tag.values}"\<close>: a str as it is, a list as \<open>[a, b, ...]\<close> with each element's
  \<open>repr\<close> (\<open>Ratio.__repr__\<close> returns \<open>str(self)\<close>).
\<close>

fun str_values :: "tag_values \<Rightarrow> string" where
  "str_values (AsciiValues s) = s"
| "str_values (IntValues xs) = ''['' @ join_comma (map str_int xs) @ '']''"
| "str_values (RatioValues rs) = ''['' @ join_comma (map str_ratio rs) @ '']''"

definition get_subject_area :: "tags \<Rightarrow> error + string" where
  "get_subject_area tgs =
     (case tgs ''EXIF SubjectArea'' of
        None \<Rightarrow> Inr ''N/A''
      | Some t \<Rightarrow> Inr (str_values (ifd_values t)))"

text \<open>
  \<^verbatim>\<open>
  def _get_resolution(tags):
      x_resolution = _fraction_to_readable(tags.get('Image XResolution'), 'N/A')
      y_resolution = _fraction_to_readable(tags.get('Image YResolution'), 'N/A')
      resolution_unit = _get_resolution_unit(tags)
      return f"{x_resolution} x {y_resolution} {resolution_unit}"
  \<close>
\<close>

definition get_resolution :: "tags \<Rightarrow> error + string" where
  "get_resolution tgs =
     (case fraction_to_readable (tgs ''Image XResolution'') ''N/A'' of
        Inl e \<Rightarrow> Inl e
      | Inr x_resolution \<Rightarrow>
          (case fraction_to_readable (tgs ''Image YResolution'') ''N/A'' of
             Inl e \<Rightarrow> Inl e
           | Inr y_resolution \<Rightarrow>
               (case get_resolution_unit tgs of
                  Inl e \<Rightarrow> Inl e
                | Inr resolution_unit \<Rightarrow>
                    Inr (x_resolution @ '' x '' @ y_resolution @ '' '' @ resolution_unit))))"

section \<open>The report assembler\<close>

text \<open>
  The container decoder's result, as far as the module reads it: \<open>img.format\<close>,
  \<open>img.size\<close>, \<open>img.mode\<close> and the dict \<open>img.info\<close>.
\<close>

record 'x image =
  img_format :: string
  img_size :: "nat \<times> nat"
  img_mode :: string
  img_info :: "string \<rightharpoonup> 'x"

definition info_get :: "'x image \<Rightarrow> string \<Rightarrow> 'x pyval" where
  "info_get img key = (case img_info img key of None \<Rightarrow> PStr ''N/A'' | Some v \<Rightarrow> PObj v)"

definition image_properties :: "'x image \<Rightarrow> nat \<Rightarrow> (string \<times> 'x pyval) list" where
  "image_properties img file_size =
     [(''Format'', PStr (img_format img)),
      (''Size'', PStr (str_nat (fst (img_size img)) @ '' x '' @ str_nat (snd (img_size img)) @ '' pixels'')),
      (''Color Mode'', PStr (img_mode img)),
      (''File Size'', PInt (int file_size)),
      (''DPI'', info_get img ''dpi''),
      (''Duration'', info_get img ''duration'')]"

definition camera_information :: "tags \<Rightarrow> (string \<times> string) list" where
  "camera_information tgs =
     [(''Make'', str_tag tgs ''Image Make'' ''N/A''),
      (''Model'', str_tag tgs ''Image Model'' ''N/A''),
      (''Software'', str_tag tgs ''Image Software'' ''N/A''),
      (''Lens Model'', str_tag tgs ''EXIF LensModel'' ''N/A''),
      (''Camera Serial Number'', str_tag tgs ''EXIF CameraSerialNumber'' ''N/A''),
      (''Date of Manufacture'', str_tag tgs ''EXIF DateTimeOriginal'' ''N/A'')]"

definition date_and_time :: "tags \<Rightarrow> (string \<times> string) list" where
  "date_and_time tgs =
     [(''Taken'', str_tag tgs ''EXIF DateTimeOriginal'' ''N/A''),
      (''Digitized'', str_tag tgs ''EXIF DateTimeDigitized'' ''N/A''),
      (''DateTime'', str_tag tgs ''EXIF DateTime'' ''N/A''),
      (''Time Zone Offset'', str_tag tgs ''EXIF OffsetTimeOriginal'' ''N/A'')]"

definition camera_settings :: "tags \<Rightarrow> error + (string \<times> string) list" where
  "camera_settings tgs = collect
     [(''Exposure Time'', fraction_to_readable (tgs ''EXIF ExposureTime'') ''N/A''),
      (''F-Number'', fraction_to_readable (tgs ''EXIF FNumber'') ''N/A''),
      (''ISO Speed'', Inr (str_tag tgs ''EXIF ISOSpeedRatings'' ''N/A'')),
      (''Focal Length'',
         map_sum id (\<lambda>s. s @ ''mm'') (fraction_to_readable (tgs ''EXIF FocalLength'') ''N/A '')),
      (''Focal Length (35mm equivalent)'',
         Inr (str_tag tgs ''EXIF FocalLengthIn35mmFilm'' ''N/A '' @ ''mm'')),
      (''Exposure Mode'', get_exposure_mode tgs),
      (''White Balance'', get_white_balance tgs),
      (''Flash'', get_flash_info tgs),
      (''Metering Mode'', get_metering_mode tgs),
      (''Exposure Program'', get_exposure_program tgs),
      (''Brightness Value'', fraction_to_readable (tgs ''EXIF BrightnessValue'') ''N/A''),
      (''Exposure Bias'', fraction_to_readable (tgs ''EXIF ExposureBiasValue'') ''N/A''),
      (''Max Aperture Value'', fraction_to_readable (tgs ''EXIF MaxApertureValue'') ''N/A''),
      (''Digital Zoom Ratio'', fraction_to_readable (tgs ''EXIF DigitalZoomRatio'') ''N/A''),
      (''Scene Capture Type'', get_scene_capture_type tgs),
      (''Shutter Speed Value'', fraction_to_readable (tgs ''EXIF ShutterSpeedValue'') ''N/A''),
      (''Aperture Value'', fraction_to_readable (tgs ''EXIF ApertureValue'') ''N/A''),
      (''Color Space'', get_color_space tgs),
      (''Focus Mode'', get_focus_mode tgs),
      (''Shooting Mode'', get_shooting_mode tgs),
      (''Noise Reduction'', get_noise_reduction tgs),
      (''Subject Area'', get_subject_area tgs)]"

text \<open>\<open>os.path.basename\<close>: what follows the last slash.\<close>

definition basename :: "string \<Rightarrow> string" where
  "basename p = rev (takeWhile (\<lambda>c. c \<noteq> CHR ''/'') (rev p))"

definition other_details :: "tags \<Rightarrow> string \<Rightarrow> error + (string \<times> string) list" where
  "other_details tgs file_path = collect
     [(''Orientation'', get_orientation tgs),
      (''YCbCr Positioning'', get_ycbcr_positioning tgs),
      (''Resolution'', get_resolution tgs),
      (''Unique Image ID'', Inr (str_tag tgs ''EXIF ImageUniqueID'' ''N/A'')),
      (''Exif Version'', Inr (str_tag tgs ''EXIF ExifVersion'' ''N/A'')),
      (''Compression'', Inr (str_tag tgs ''EXIF Compression'' ''N/A'')),
      (''Image Width'', Inr (str_tag tgs ''EXIF ExifImageWidth'' ''N/A'')),
      (''Image Length'', Inr (str_tag tgs ''EXIF ExifImageLength'' ''N/A'')),
      (''Subject Distance'', fraction_to_readable (tgs ''EXIF SubjectDistance'') ''N/A''),
      (''Metering Mode'', get_metering_mode tgs),
      (''File Name'', Inr (basename file_path)),
      (''File Path'', Inr file_path)]"

text \<open>
  The sections that are computed from the tag directory, in the order the module fills
  them in. Camera Information and Date and Time cannot raise.
\<close>

definition tag_sections :: "tags \<Rightarrow> string \<Rightarrow> error + 'x report" where
  "tag_sections tgs file_path =
     (case camera_settings tgs of
        Inl e \<Rightarrow> Inl e
      | Inr settings \<Rightarrow>
          (case extract_gps_info tgs of
             Inl e \<Rightarrow> Inl e
           | Inr gps \<Rightarrow>
               (case other_details tgs file_path of
                  Inl e \<Rightarrow> Inl e
                | Inr other \<Rightarrow>
                    Inr [(''Camera Information'', Fields (str_fields (camera_information tgs))),
                         (''Date and Time'', Fields (str_fields (date_and_time tgs))),
                         (''Camera Settings'', Fields (str_fields settings)),
                         (''GPS Information'', gps),
                         (''Other Details'', Fields (str_fields other))])))"

section \<open>The public operation\<close>

text \<open>
  The file system, as far as the module looks at it: a path names nothing, a regular
  file (with the permission to read it, and its bytes), or something else (a directory, a
  device). \<open>os.path.isfile\<close> holds of a regular file, readable or not.
  \<open>open(path, 'rb')\<close>, which \<open>Image.open\<close> also calls, raises PermissionError on a
  file that may not be read.
\<close>

type_synonym byte = "8 word"

datatype node = Regular bool "byte list" | Directory

type_synonym filesystem = "string \<rightharpoonup> node"

definition isfile :: "filesystem \<Rightarrow> string \<Rightarrow> bool" where
  "isfile fs p = (case fs p of Some (Regular readable bytes) \<Rightarrow> True | _ \<Rightarrow> False)"

definition open_rb :: "filesystem \<Rightarrow> string \<Rightarrow> error + byte list" where
  "open_rb fs p =
     (case fs p of
        None \<Rightarrow> Inl FileNotFoundError
      | Some Directory \<Rightarrow> Inl IsADirectoryError
      | Some (Regular readable bytes) \<Rightarrow> if readable then Inr bytes else Inl PermissionError)"

definition getsize :: "filesystem \<Rightarrow> string \<Rightarrow> error + nat" where
  "getsize fs p =
     (case fs p of
        None \<Rightarrow> Inl FileNotFoundError
      | Some Directory \<Rightarrow> Inr 4096
      | Some (Regular readable bytes) \<Rightarrow> Inr (length bytes))"

text \<open>
  \<^verbatim>\<open>
  def extract_clean_image_info(file_path):
      if not os.path.isfile(file_path):
          raise FileNotFoundError(f"The file {file_path} does not exist.")
      info = {}
      with Image.open(file_path) as img:
          info['Image Properties'] = { ... }
      with open(file_path, 'rb') as img_file:
          tags = exifread.process_file(img_file)
          info['Camera Information'] = { ... }
          ...
      return info
  \<close>
  The two collaborators are parameters, each a function of the file's bytes:
  \<open>image_open\<close> is the container decoder (None: it cannot identify the image), and
  \<open>process_file\<close> is the tag-directory parser (None: the segment is malformed).
\<close>

definition extract_clean_image_info ::
  "(byte list \<Rightarrow> 'x image option) \<Rightarrow> (byte list \<Rightarrow> tags option) \<Rightarrow>
   filesystem \<Rightarrow> string \<Rightarrow> error + 'x report" where
  "extract_clean_image_info image_open process_file fs file_path =
     (if \<not> isfile fs file_path then Inl FileNotFoundError
      else
        (case open_rb fs file_path of
           Inl e \<Rightarrow> Inl e
         | Inr bytes \<Rightarrow>
             (case image_open bytes of
                None \<Rightarrow> Inl UnidentifiedImageError
              | Some img \<Rightarrow>
                  (case getsize fs file_path of
                     Inl e \<Rightarrow> Inl e
                   | Inr file_size \<Rightarrow>
                       (case open_rb fs file_path of
                          Inl e \<Rightarrow> Inl e
                        | Inr img_file \<Rightarrow>
                            (case process_file img_file of
                               None \<Rightarrow> Inl ExifFormatError
                             | Some tgs \<Rightarrow>
                                 (case tag_sections tgs file_path of
                                    Inl e \<Rightarrow> Inl e
                                  | Inr sections \<Rightarrow>
                                      Inr ((''Image Properties'',
                                              Fields (image_properties img file_size)) # sections))))))))"

section \<open>Predicates of the claims\<close>

text \<open>
  What the contract of a mapped-enum resolver says, in the contract's words: an absent
  tag resolves to \<open>N/A\<close>; a present tag whose first element is the integer code
  \<open>c\<close> resolves to the label the table lists for \<open>c\<close>, and to \<open>unmapped\<close> when the
  table lists none.
\<close>

definition resolves_as ::
  "(tags \<Rightarrow> error + string) \<Rightarrow> string \<Rightarrow> (int \<times> string) list \<Rightarrow> string \<Rightarrow> bool" where
  "resolves_as resolver name table unmapped \<longleftrightarrow>
     (\<forall>tgs.
        (tgs name = None \<longrightarrow> resolver tgs = Inr ''N/A'') \<and>
        (\<forall>t c. tgs name = Some t \<and> py_index (ifd_values t) 0 = Inr (IntItem c) \<longrightarrow>
           resolver tgs = Inr (case map_of table c of Some label \<Rightarrow> label | None \<Rightarrow> unmapped)))"

text \<open>
  The input of the GPS scenario: latitude 40 degrees, 0 minutes, 0 seconds north,
  longitude 74 degrees, 0 minutes, 0 seconds west.
\<close>

definition example_gps_tags :: tags where
  "example_gps_tags =
     [''GPS GPSLatitude'' \<mapsto>
        \<lparr>ifd_printable = ''[40, 0, 0]'', ifd_values = RatioValues [Ratio 40 1, Ratio 0 1, Ratio 0 1]\<rparr>,
      ''GPS GPSLatitudeRef'' \<mapsto> \<lparr>ifd_printable = ''N'', ifd_values = AsciiValues ''N''\<rparr>,
      ''GPS GPSLongitude'' \<mapsto>
        \<lparr>ifd_printable = ''[74, 0, 0]'', ifd_values = RatioValues [Ratio 74 1, Ratio 0 1, Ratio 0 1]\<rparr>,
      ''GPS GPSLongitudeRef'' \<mapsto> \<lparr>ifd_printable = ''W'', ifd_values = AsciiValues ''W''\<rparr>]"

text \<open>
  The float of a rational with a non-zero denominator, and the decimal degrees of a
  degree/minute/second triplet: each ratio divided as floats, then
  \<open>degrees + minutes / 60.0 + seconds / 3600.0\<close>, added left to right.
\<close>

definition float_of_ratio :: "ratio \<Rightarrow> pyfloat" where
  "float_of_ratio r = float_quot (float_of_int (ratio_num r)) (float_of_int (ratio_den r))"

definition decimal_degrees :: "ratio \<Rightarrow> ratio \<Rightarrow> ratio \<Rightarrow> pyfloat" where
  "decimal_degrees d m s =
     float_add
       (float_add (float_of_ratio d) (float_quot (float_of_ratio m) (PyFloat False 60)))
       (float_quot (float_of_ratio s) (PyFloat False 3600))"

text \<open>Negation: the sign bit flipped, the magnitude unchanged.\<close>

definition float_negate :: "pyfloat \<Rightarrow> pyfloat" where
  "float_negate x = PyFloat (\<not> fneg x) (fmag x)"

definition raw_den :: "ratio \<Rightarrow> int" where
  "raw_den r = (case r of Ratio n d \<Rightarrow> d)"

definition section_field :: "error + 'x report_section \<Rightarrow> string \<Rightarrow> 'x pyval option" where
  "section_field r label =
     (case r of
        Inr (Fields kvs) \<Rightarrow> map_of kvs label
      | _ \<Rightarrow> None)"

definition altitude_only_tags :: tags where
  "altitude_only_tags =
     [''GPS GPSAltitude'' \<mapsto> \<lparr>ifd_printable = ''10'', ifd_values = RatioValues [Ratio 10 1]\<rparr>]"

text \<open>
  What the field computations read from a tag that is present. The Rational formatter
  reads the first element and, when that is not a Ratio, the second; a code resolver reads
  the first element; the GPS converter reads three rationals of each triplet and the first
  element of each ref, and divides by each denominator; the altitude is one rational.
\<close>

definition rational_ok :: "IfdTag option \<Rightarrow> bool" where
  "rational_ok f =
     (case f of
        None \<Rightarrow> True
      | Some t \<Rightarrow>
          (case ifd_values t of
             RatioValues rs \<Rightarrow> rs \<noteq> []
           | IntValues xs \<Rightarrow> 2 \<le> length xs
           | AsciiValues s \<Rightarrow> 2 \<le> length s))"

definition code_ok :: "IfdTag option \<Rightarrow> bool" where
  "code_ok f =
     (case f of
        None \<Rightarrow> True
      | Some t \<Rightarrow>
          (case ifd_values t of
             RatioValues rs \<Rightarrow> rs \<noteq> []
           | IntValues xs \<Rightarrow> xs \<noteq> []
           | AsciiValues s \<Rightarrow> s \<noteq> []))"

definition triplet_ok :: "IfdTag \<Rightarrow> bool" where
  "triplet_ok t =
     (case ifd_values t of
        RatioValues rs \<Rightarrow>
          3 \<le> length rs \<and> raw_den (rs ! 0) \<noteq> 0 \<and> raw_den (rs ! 1) \<noteq> 0 \<and> raw_den (rs ! 2) \<noteq> 0
      | _ \<Rightarrow> False)"

definition altitude_ok :: "IfdTag option \<Rightarrow> bool" where
  "altitude_ok f =
     (case f of
        None \<Rightarrow> True
      | Some t \<Rightarrow>
          (case ifd_values t of
             RatioValues rs \<Rightarrow> rs \<noteq> [] \<and> raw_den (rs ! 0) \<noteq> 0
           | _ \<Rightarrow> False))"

definition gps_ok :: "tags \<Rightarrow> bool" where
  "gps_ok tgs =
     ((case tgs ''GPS GPSLatitude'' of None \<Rightarrow> True | Some lat \<Rightarrow>
       (case tgs ''GPS GPSLatitudeRef'' of None \<Rightarrow> True | Some lat_ref \<Rightarrow>
       (case tgs ''GPS GPSLongitude'' of None \<Rightarrow> True | Some lon \<Rightarrow>
       (case tgs ''GPS GPSLongitudeRef'' of None \<Rightarrow> True | Some lon_ref \<Rightarrow>
          triplet_ok lat \<and> triplet_ok lon \<and> code_ok (Some lat_ref) \<and> code_ok (Some lon_ref))))) \<and>
      altitude_ok (tgs ''GPS GPSAltitude''))"

definition rational_tag_names :: "string list" where
  "rational_tag_names =
     [''EXIF ExposureTime'', ''EXIF FNumber'', ''EXIF FocalLength'', ''EXIF BrightnessValue'',
      ''EXIF ExposureBiasValue'', ''EXIF MaxApertureValue'', ''EXIF DigitalZoomRatio'',
      ''EXIF ShutterSpeedValue'', ''EXIF ApertureValue'', ''Image XResolution'',
      ''Image YResolution'', ''EXIF SubjectDistance'']"

definition code_tag_names :: "string list" where
  "code_tag_names =
     [''EXIF ExposureMode'', ''EXIF WhiteBalance'', ''EXIF Flash'', ''EXIF MeteringMode'',
      ''EXIF ExposureProgram'', ''EXIF SceneCaptureType'', ''EXIF ColorSpace'', ''EXIF FocusMode'',
      ''EXIF ShootingMode'', ''EXIF NoiseReduction'', ''Image Orientation'',
      ''Image YCbCrPositioning'', ''Image ResolutionUnit'']"

definition tags_readable :: "tags \<Rightarrow> bool" where
  "tags_readable tgs \<longleftrightarrow>
     list_all (\<lambda>name. rational_ok (tgs name)) rational_tag_names \<and>
     list_all (\<lambda>name. code_ok (tgs name)) code_tag_names \<and>
     gps_ok tgs"

text \<open>A directory whose GPS latitude has a seconds rational 0/0.\<close>

definition zero_denominator_tags :: tags where
  "zero_denominator_tags =
     [''GPS GPSLatitude'' \<mapsto>
        \<lparr>ifd_printable = ''[40, 0, 0/0]'', ifd_values = RatioValues [Ratio 40 1, Ratio 0 1, Ratio 0 0]\<rparr>,
      ''GPS GPSLatitudeRef'' \<mapsto> \<lparr>ifd_printable = ''N'', ifd_values = AsciiValues ''N''\<rparr>,
      ''GPS GPSLongitude'' \<mapsto>
        \<lparr>ifd_printable = ''[74, 0, 0]'', ifd_values = RatioValues [Ratio 74 1, Ratio 0 1, Ratio 0 1]\<rparr>,
      ''GPS GPSLongitudeRef'' \<mapsto> \<lparr>ifd_printable = ''W'', ifd_values = AsciiValues ''W''\<rparr>]"

section \<open>Properties of the float model\<close>

lemma pow2_powi: "pow2 e = 2 powi e"
  by (simp add: pow2_def power_int_def inverse_eq_divide power_one_over)

lemma pow2_pos [simp]: "0 < pow2 e"
  by (simp add: pow2_powi)

lemma pow2_add: "pow2 (a + b) = pow2 a * pow2 b"
  by (simp add: pow2_powi power_int_add)

lemma pow2_nat: "pow2 (int n) = 2 ^ n"
  by (simp add: pow2_def)

lemma pow2_mono: "a \<le> b \<Longrightarrow> pow2 a \<le> pow2 b"
  by (simp add: pow2_powi power_int_increasing)

lemma pow2_strict_mono: "a < b \<Longrightarrow> pow2 a < pow2 b"
  by (simp add: pow2_powi power_int_strict_increasing)

lemma floorlog2_int_bounds:
  assumes "0 < a"
  shows "pow2 (int (floorlog 2 (nat a)) - 1) \<le> of_int a" and "of_int a < pow2 (int (floorlog 2 (nat a)))"
proof -
  let ?l = "floorlog 2 (nat a)"
  have pos: "0 < nat a" using assms by simp
  have b: "2 ^ (?l - 1) \<le> nat a \<and> nat a < 2 ^ ?l"
    using floorlog_bounds [OF pos, of 2] by simp
  have l1: "1 \<le> ?l"
    using pos floorlog_eq_zero_iff [of 2 "nat a"] by (cases "?l") simp_all
  have a_nat: "(of_int a :: rat) = of_nat (nat a)"
    using assms by simp
  have "(of_nat (2 ^ (?l - 1)) :: rat) \<le> of_nat (nat a)"
    using b by (simp only: of_nat_le_iff)
  then have lo: "(2::rat) ^ (?l - 1) \<le> of_int a"
    by (simp only: a_nat of_nat_power of_nat_numeral)
  have "int ?l - 1 = int (?l - 1)" using l1 by simp
  then show "pow2 (int ?l - 1) \<le> of_int a"
    using lo by (simp only: pow2_nat)
  have "(of_nat (nat a) :: rat) < of_nat (2 ^ ?l)"
    using b by (simp only: of_nat_less_iff)
  then show "of_int a < pow2 (int ?l)"
    by (simp only: a_nat of_nat_power of_nat_numeral pow2_nat)
qed

lemma floor_log2_bounds:
  assumes "0 < q"
  shows "pow2 (floor_log2 q) \<le> q" and "q < pow2 (floor_log2 q + 1)"
proof -
  obtain a b where ab: "quotient_of q = (a, b)" by (cases "quotient_of q")
  have bpos: "0 < b" using ab by (rule quotient_of_denom_pos)
  have q: "q = of_int a / of_int b" using ab by (rule quotient_of_div)
  have apos: "0 < a" using assms bpos q by (simp add: zero_less_divide_iff)
  let ?la = "int (floorlog 2 (nat a))" and ?lb = "int (floorlog 2 (nat b))"
  let ?k = "?la - ?lb"
  note A = floorlog2_int_bounds [OF apos] and B = floorlog2_int_bounds [OF bpos]
  have bq: "(0::rat) < of_int b" using bpos by simp
  have lower: "pow2 (?k - 1) \<le> q"
  proof -
    have "of_int b \<le> pow2 ?lb" using B(2) by (rule less_imp_le)
    then have "pow2 (?k - 1) * of_int b \<le> pow2 (?k - 1) * pow2 ?lb"
      by (rule mult_left_mono) (rule less_imp_le [OF pow2_pos])
    also have "\<dots> = pow2 (?la - 1)"
      by (simp add: pow2_add [symmetric])
    also have "\<dots> \<le> of_int a" by (rule A(1))
    finally show ?thesis using bq by (simp add: q pos_le_divide_eq)
  qed
  have upper: "q < pow2 (?k + 1)"
  proof -
    have "of_int a < pow2 ?la" by (rule A(2))
    also have "\<dots> = pow2 (?k + 1) * pow2 (?lb - 1)"
      by (simp add: pow2_add [symmetric])
    also have "\<dots> \<le> pow2 (?k + 1) * of_int b"
      using B(1) by (rule mult_left_mono) (rule less_imp_le [OF pow2_pos])
    finally show ?thesis using bq by (simp add: q pos_divide_less_eq)
  qed
  have fl: "floor_log2 q = (if pow2 ?k \<le> q then ?k else ?k - 1)"
    by (simp add: floor_log2_def ab)
  show "pow2 (floor_log2 q) \<le> q"
    using lower by (simp add: fl)
  show "q < pow2 (floor_log2 q + 1)"
    using upper by (simp add: fl not_le)
qed

lemma pow2_less_cancel: "pow2 a < pow2 b \<Longrightarrow> a < b"
  using pow2_mono [of b a] by (cases "a < b") simp_all

lemma floor_log2_less: "0 < q \<Longrightarrow> q < pow2 k \<Longrightarrow> floor_log2 q < k"
  using floor_log2_bounds(1) [of q] pow2_less_cancel [of "floor_log2 q" k] by simp

lemma floor_log2_ge: "0 < q \<Longrightarrow> pow2 k \<le> q \<Longrightarrow> k \<le> floor_log2 q"
  using floor_log2_bounds(2) [of q] pow2_less_cancel [of k "floor_log2 q + 1"] by simp

lemma round_half_even_of_int [simp]: "round_half_even (of_int n) = n"
  by (simp add: round_half_even_def)

lemma round_half_even_ge_floor: "\<lfloor>x\<rfloor> \<le> round_half_even x"
  by (simp add: round_half_even_def Let_def)

lemma round_half_even_le_ceiling: "round_half_even x \<le> \<lceil>x\<rceil>"
proof -
  have "x = of_int \<lfloor>x\<rfloor> \<or> \<lceil>x\<rceil> = \<lfloor>x\<rfloor> + 1"
    by (metis ceiling_altdef)
  moreover have "x = of_int \<lfloor>x\<rfloor> \<Longrightarrow> round_half_even x = \<lfloor>x\<rfloor>"
    by (metis round_half_even_of_int)
  moreover have "round_half_even x \<le> \<lfloor>x\<rfloor> + 1"
    by (simp add: round_half_even_def Let_def)
  ultimately show ?thesis
    by (metis ceiling_of_int order_refl)
qed

lemma round_half_even_nonneg: "0 \<le> x \<Longrightarrow> 0 \<le> round_half_even x"
  using round_half_even_ge_floor [of x] by (simp add: order_trans [of 0 "\<lfloor>x\<rfloor>"])

lemma round_b64_nonneg: "0 \<le> q \<Longrightarrow> 0 \<le> round_b64 q"
  by (simp add: round_b64_def Let_def round_half_even_nonneg less_imp_le [OF pow2_pos])

lemma pow2_nonzero [simp]: "pow2 e \<noteq> 0"
  by (metis pow2_pos less_irrefl)

lemma pow2_diff: "pow2 (a - b) = pow2 a / pow2 b"
  by (simp add: pow2_powi power_int_diff)

lemma pow2_52: "pow2 52 = 2 ^ 52" and pow2_53: "pow2 53 = 2 ^ 53"
  by (simp_all add: pow2_def)

text \<open>The scaled magnitude lies below \<open>2^53\<close>, and at or above \<open>2^52\<close> in the normal range.\<close>

lemma scaled_upper:
  assumes "0 < q" and "e = max (floor_log2 q - 52) (- 1074)"
  shows "q / pow2 e < pow2 53"
proof -
  have "q < pow2 (floor_log2 q + 1)" using assms(1) by (rule floor_log2_bounds)
  also have "pow2 (floor_log2 q + 1) \<le> pow2 (53 + e)"
    using assms(2) by (intro pow2_mono) simp
  also have "\<dots> = pow2 53 * pow2 e" by (rule pow2_add)
  finally show ?thesis by (simp add: pos_divide_less_eq)
qed

lemma scaled_lower:
  assumes "0 < q" and "- 1022 \<le> floor_log2 q"
  shows "pow2 52 \<le> q / pow2 (max (floor_log2 q - 52) (- 1074))"
proof -
  have e: "max (floor_log2 q - 52) (- 1074) = floor_log2 q - 52" using assms(2) by simp
  have "pow2 52 * pow2 (floor_log2 q - 52) = pow2 (floor_log2 q)"
    by (simp add: pow2_add [symmetric])
  also have "\<dots> \<le> q" using assms(1) by (rule floor_log2_bounds)
  finally show ?thesis by (simp add: e pos_le_divide_eq)
qed

lemma round_b64_pos:
  assumes "1 \<le> q"
  shows "0 < round_b64 q"
proof -
  have q0: "0 < q" using assms by simp
  have "pow2 0 \<le> q" using assms by (simp add: pow2_def)
  then have "0 \<le> floor_log2 q" using q0 by (intro floor_log2_ge)
  then have "pow2 52 \<le> q / pow2 (max (floor_log2 q - 52) (- 1074))"
    using q0 by (intro scaled_lower) simp_all
  moreover have "(1::rat) \<le> pow2 52" by (simp add: pow2_52)
  ultimately have "(1::rat) \<le> q / pow2 (max (floor_log2 q - 52) (- 1074))"
    by (rule order_trans [rotated])
  then have "1 \<le> \<lfloor>q / pow2 (max (floor_log2 q - 52) (- 1074))\<rfloor>"
    by (simp add: le_floor_iff)
  then have "1 \<le> round_half_even (q / pow2 (max (floor_log2 q - 52) (- 1074)))"
    using round_half_even_ge_floor order_trans by blast
  then have "0 < round_half_even (q / pow2 (max (floor_log2 q - 52) (- 1074)))"
    by simp
  then show ?thesis using q0
    by (simp add: round_b64_def Let_def)
qed


lemma of_int_pow2_nat: "of_int n * pow2 (int k) = of_int (n * 2 ^ k)"
  by (simp add: pow2_nat)

lemma round_b64_unfold:
  "q \<noteq> 0 \<Longrightarrow>
   round_b64 q =
     of_int (round_half_even (q / pow2 (max (floor_log2 q - 52) (- 1074)))) *
     pow2 (max (floor_log2 q - 52) (- 1074))"
  by (simp add: round_b64_def Let_def)

lemma scaled_int:
  assumes "e' \<le> e"
  shows "\<exists>n. of_int r * pow2 e / pow2 e' = of_int n"
proof -
  obtain k where k: "e = e' + int k" using assms by (metis zle_iff_zadd)
  have "of_int r * pow2 e / pow2 e' = of_int r * pow2 (int k)"
    by (simp add: k pow2_add)
  also have "\<dots> = of_int (r * 2 ^ k)" by (simp add: pow2_nat)
  finally show ?thesis by blast
qed

lemma round_b64_fixed:
  assumes "0 < r" and "r \<le> 2 ^ 53" and "- 1074 \<le> e"
  shows "round_b64 (of_int r * pow2 e) = of_int r * pow2 e"
proof -
  let ?q = "of_int r * pow2 e"
  have q0: "0 < ?q" using assms(1) by simp
  let ?e' = "max (floor_log2 ?q - 52) (- 1074)"
  have int_scaled: "\<exists>n. ?q / pow2 ?e' = of_int n"
  proof (cases "r = 2 ^ 53")
    case True
    then have "?q = pow2 (53 + e)" by (simp add: pow2_add pow2_53)
    then have fl: "floor_log2 ?q = 53 + e"
      using floor_log2_ge [of ?q "53 + e"] floor_log2_less [of ?q "53 + e + 1"] q0
        pow2_strict_mono [of "53 + e" "53 + e + 1"] by simp
    have "?e' = e + 1" using assms(3) by (simp add: fl)
    moreover have "pow2 (e + 1) = pow2 e * 2"
      by (simp only: pow2_add) (simp add: pow2_def)
    then have "?q / pow2 (e + 1) = of_int (2 ^ 52)"
      using True by simp
    ultimately show ?thesis by metis
  next
    case False
    then have "r < 2 ^ 53" using assms(2) by simp
    then have "(of_int r :: rat) < of_int (2 ^ 53)" by (simp only: of_int_less_iff)
    then have "(of_int r :: rat) < pow2 53" by (simp add: pow2_53)
    then have "?q < pow2 53 * pow2 e" by (simp add: mult_strict_right_mono)
    then have "?q < pow2 (53 + e)" by (simp add: pow2_add)
    then have "floor_log2 ?q < 53 + e" using q0 by (intro floor_log2_less)
    then have le: "?e' \<le> e" using assms(3) by simp
    then show ?thesis by (rule scaled_int)
  qed
  then obtain n where n: "?q / pow2 ?e' = of_int n" by blast
  have "?q \<noteq> 0" using q0 by (rule less_imp_neq [symmetric])
  then have "round_b64 ?q = of_int (round_half_even (?q / pow2 ?e')) * pow2 ?e'"
    by (rule round_b64_unfold)
  also have "\<dots> = of_int n * pow2 ?e'" by (simp only: n round_half_even_of_int)
  also have "\<dots> = ?q / pow2 ?e' * pow2 ?e'" by (simp only: n)
  also have "\<dots> = ?q" by simp
  finally show ?thesis .
qed

lemma round_b64_idem: "0 \<le> q \<Longrightarrow> round_b64 (round_b64 q) = round_b64 q"
proof (cases "q = 0")
  case True
  then show ?thesis by (simp add: round_b64_def)
next
  case False
  assume "0 \<le> q"
  with False have q0: "0 < q" by simp
  let ?e = "max (floor_log2 q - 52) (- 1074)"
  let ?r = "round_half_even (q / pow2 ?e)"
  have rb: "round_b64 q = of_int ?r * pow2 ?e"
    using False by (rule round_b64_unfold)
  have "q / pow2 ?e < pow2 53" using q0 by (rule scaled_upper) simp
  then have "\<lceil>q / pow2 ?e\<rceil> \<le> 2 ^ 53"
    by (simp add: ceiling_le_iff pow2_53)
  then have r_le: "?r \<le> 2 ^ 53"
    using round_half_even_le_ceiling order_trans by blast
  have "0 \<le> q / pow2 ?e" using q0 by (simp add: less_imp_le)
  then have r_ge: "0 \<le> ?r" by (rule round_half_even_nonneg)
  show ?thesis
  proof (cases "?r = 0")
    case True
    then show ?thesis by (simp add: rb round_b64_def)
  next
    case False
    with r_ge have "0 < ?r" by simp
    then show ?thesis
      unfolding rb using r_le by (rule round_b64_fixed) simp
  qed
qed

section \<open>Properties of the resolvers\<close>

lemma py_index_simps0 [simp]:
  "py_index (IntValues (x # xs)) 0 = Inr (IntItem x)"
  "py_index (RatioValues (r # rs)) 0 = Inr (RatioItem r)"
  "py_index (AsciiValues (c # s)) 0 = Inr (StrItem [c])"
  "py_index (IntValues []) i = Inl IndexError"
  "py_index (RatioValues []) i = Inl IndexError"
  "py_index (AsciiValues []) i = Inl IndexError"
  by simp_all

lemma resolves_asI:
  assumes "\<And>tgs. resolver tgs =
     (case tgs name of
        None \<Rightarrow> Inr ''N/A''
      | Some t \<Rightarrow>
          (case py_index (ifd_values t) 0 of
             Inl e \<Rightarrow> Inl e
           | Inr v \<Rightarrow> Inr (dict_get table v unmapped)))"
  shows "resolves_as resolver name table unmapped"
  unfolding resolves_as_def
  by (auto simp: assms dict_get_def split: option.splits)

lemma resolves_asD:
  "resolves_as resolver name table unmapped \<Longrightarrow> tgs name = Some t \<Longrightarrow>
   py_index (ifd_values t) 0 = Inr (IntItem c) \<Longrightarrow>
   resolver tgs = Inr (case map_of table c of Some label \<Rightarrow> label | None \<Rightarrow> unmapped)"
  unfolding resolves_as_def by blast

text \<open>
  C1, amended. Each of the twelve mapped-enum resolvers returns \<open>N/A\<close> when its tag is
  absent and the listed label when the tag is present with a code of its table. For a
  present code outside the table, ten of them return \<open>Unknown\<close>; Color Space and
  Orientation return \<open>N/A\<close>.
\<close>

theorem mapped_enum_resolvers:
  "resolves_as get_exposure_mode ''EXIF ExposureMode''
     [(0, ''Auto''), (1, ''Manual''), (2, ''Auto bracket'')] ''Unknown'' \<and>
   resolves_as get_white_balance ''EXIF WhiteBalance''
     [(0, ''Auto''), (1, ''Manual'')] ''Unknown'' \<and>
   resolves_as get_flash_info ''EXIF Flash''
     [(0, ''Flash did not fire''), (1, ''Flash fired'')] ''Unknown'' \<and>
   resolves_as get_metering_mode ''EXIF MeteringMode''
     [(0, ''Unknown''), (1, ''Average''), (2, ''Center-weighted average''), (3, ''Spot''),
      (4, ''Multi-spot''), (5, ''Pattern''), (6, ''Partial'')] ''Unknown'' \<and>
   resolves_as get_exposure_program ''EXIF ExposureProgram''
     [(0, ''Not defined''), (1, ''Manual''), (2, ''Normal program''), (3, ''Aperture priority''),
      (4, ''Shutter priority''), (5, ''Creative program''), (6, ''Action program''),
      (7, ''Portrait mode''), (8, ''Landscape mode'')] ''Unknown'' \<and>
   resolves_as get_scene_capture_type ''EXIF SceneCaptureType''
     [(0, ''Standard''), (1, ''Landscape''), (2, ''Portrait''), (3, ''Night scene'')] ''Unknown'' \<and>
   resolves_as get_resolution_unit ''Image ResolutionUnit''
     [(1, ''No absolute unit of measurement''), (2, ''Inches''), (3, ''Centimeters'')] ''Unknown'' \<and>
   resolves_as get_ycbcr_positioning ''Image YCbCrPositioning''
     [(1, ''Centered''), (2, ''Co-sited'')] ''Unknown'' \<and>
   resolves_as get_focus_mode ''EXIF FocusMode''
     [(0, ''Manual''), (1, ''Auto'')] ''Unknown'' \<and>
   resolves_as get_shooting_mode ''EXIF ShootingMode''
     [(0, ''Normal''), (1, ''Portrait''), (2, ''Landscape'')] ''Unknown'' \<and>
   resolves_as get_color_space ''EXIF ColorSpace''
     [(1, ''sRGB''), (2, ''Adobe RGB'')] ''N/A'' \<and>
   resolves_as get_orientation ''Image Orientation''
     [(1, ''Normal''), (2, ''Mirrored horizontally''), (3, ''Rotated 180 degrees''),
      (4, ''Mirrored vertically''), (5, ''Mirrored horizontally and rotated 270 degrees CW''),
      (6, ''Rotated 90 degrees CW''), (7, ''Mirrored horizontally and rotated 90 degrees CW''),
      (8, ''Rotated 270 degrees CW'')] ''N/A''"
proof -
  have flash: "resolves_as get_flash_info ''EXIF Flash''
     [(0, ''Flash did not fire''), (1, ''Flash fired'')] ''Unknown''"
    unfolding resolves_as_def
    by (auto simp: get_flash_info_def split: option.splits)
  show ?thesis
    by (intro conjI flash resolves_asI)
       (simp_all only: get_exposure_mode_def get_white_balance_def get_metering_mode_def
          get_exposure_program_def get_scene_capture_type_def get_resolution_unit_def
          get_ycbcr_positioning_def get_focus_mode_def get_shooting_mode_def
          get_color_space_def get_orientation_def)
qed

theorem mapped_enum_resolvers_witness:
  "get_exposure_mode Map.empty = Inr ''N/A'' \<and>
   get_exposure_mode [''EXIF ExposureMode'' \<mapsto> \<lparr>ifd_printable = ''2'', ifd_values = IntValues [2]\<rparr>] = Inr ''Auto bracket'' \<and>
   get_exposure_mode [''EXIF ExposureMode'' \<mapsto> \<lparr>ifd_printable = ''7'', ifd_values = IntValues [7]\<rparr>] = Inr ''Unknown'' \<and>
   get_orientation [''Image Orientation'' \<mapsto> \<lparr>ifd_printable = ''6'', ifd_values = IntValues [6]\<rparr>] = Inr ''Rotated 90 degrees CW'' \<and>
   get_orientation [''Image Orientation'' \<mapsto> \<lparr>ifd_printable = ''9'', ifd_values = IntValues [9]\<rparr>] = Inr ''N/A''"
proof -
  have e: "resolves_as get_exposure_mode ''EXIF ExposureMode''
     [(0, ''Auto''), (1, ''Manual''), (2, ''Auto bracket'')] ''Unknown''"
    and o: "resolves_as get_orientation ''Image Orientation''
     [(1, ''Normal''), (2, ''Mirrored horizontally''), (3, ''Rotated 180 degrees''),
      (4, ''Mirrored vertically''), (5, ''Mirrored horizontally and rotated 270 degrees CW''),
      (6, ''Rotated 90 degrees CW''), (7, ''Mirrored horizontally and rotated 90 degrees CW''),
      (8, ''Rotated 270 degrees CW'')] ''N/A''"
    using mapped_enum_resolvers by blast+
  have "get_exposure_mode Map.empty = Inr ''N/A''"
    using e unfolding resolves_as_def by simp
  moreover have "get_exposure_mode [''EXIF ExposureMode'' \<mapsto> \<lparr>ifd_printable = ''2'', ifd_values = IntValues [2]\<rparr>] = Inr ''Auto bracket''"
    using resolves_asD [OF e, of _ _ 2] by simp
  moreover have "get_exposure_mode [''EXIF ExposureMode'' \<mapsto> \<lparr>ifd_printable = ''7'', ifd_values = IntValues [7]\<rparr>] = Inr ''Unknown''"
    using resolves_asD [OF e, of _ _ 7] by simp
  moreover have "get_orientation [''Image Orientation'' \<mapsto> \<lparr>ifd_printable = ''6'', ifd_values = IntValues [6]\<rparr>] = Inr ''Rotated 90 degrees CW''"
    using resolves_asD [OF o, of _ _ 6] by simp
  moreover have "get_orientation [''Image Orientation'' \<mapsto> \<lparr>ifd_printable = ''9'', ifd_values = IntValues [9]\<rparr>] = Inr ''N/A''"
    using resolves_asD [OF o, of _ _ 9] by simp
  ultimately show ?thesis by blast
qed

text \<open>
  The claim as stated fails for Color Space: the code 3 is not in its table, and the
  resolver returns \<open>N/A\<close>, not \<open>Unknown\<close>.
\<close>

theorem mapped_enum_unknown_counterexample:
  "map_of [(1, ''sRGB''), (2, ''Adobe RGB'')] (3::int) = None \<and>
   get_color_space [''EXIF ColorSpace'' \<mapsto> \<lparr>ifd_printable = ''3'', ifd_values = IntValues [3]\<rparr>] = Inr ''N/A'' \<and>
   get_color_space [''EXIF ColorSpace'' \<mapsto> \<lparr>ifd_printable = ''3'', ifd_values = IntValues [3]\<rparr>] \<noteq> Inr ''Unknown''"
  by (simp add: get_color_space_def dict_get_def)

text \<open>
  C7. The Noise Reduction resolver returns \<open>N/A\<close> when the tag is absent, \<open>On\<close> when
  the first element of the present tag is the code 1, \<open>Off\<close> for every other code, and
  never \<open>Unknown\<close>.
\<close>

theorem noise_reduction_resolver:
  "(tgs ''EXIF NoiseReduction'' = None \<longrightarrow> get_noise_reduction tgs = Inr ''N/A'') \<and>
   (\<forall>t. tgs ''EXIF NoiseReduction'' = Some t \<and> py_index (ifd_values t) 0 = Inr (IntItem 1) \<longrightarrow>
        get_noise_reduction tgs = Inr ''On'') \<and>
   (\<forall>t c. tgs ''EXIF NoiseReduction'' = Some t \<and> py_index (ifd_values t) 0 = Inr (IntItem c) \<and> c \<noteq> 1 \<longrightarrow>
        get_noise_reduction tgs = Inr ''Off'') \<and>
   get_noise_reduction tgs \<noteq> Inr ''Unknown''"
  by (auto simp: get_noise_reduction_def split: option.splits sum.splits)

theorem noise_reduction_resolver_witness:
  "get_noise_reduction Map.empty = Inr ''N/A'' \<and>
   get_noise_reduction [''EXIF NoiseReduction'' \<mapsto> \<lparr>ifd_printable = ''1'', ifd_values = IntValues [1]\<rparr>] = Inr ''On'' \<and>
   get_noise_reduction [''EXIF NoiseReduction'' \<mapsto> \<lparr>ifd_printable = ''2'', ifd_values = IntValues [2]\<rparr>] = Inr ''Off''"
  using noise_reduction_resolver [of Map.empty]
    noise_reduction_resolver [of "[''EXIF NoiseReduction'' \<mapsto> \<lparr>ifd_printable = ''1'', ifd_values = IntValues [1]\<rparr>]"]
    noise_reduction_resolver [of "[''EXIF NoiseReduction'' \<mapsto> \<lparr>ifd_printable = ''2'', ifd_values = IntValues [2]\<rparr>]"]
  by simp

section \<open>Properties of the Rational formatter\<close>

lemma str_int_0: "str_int 0 = ''0''"
  by (simp add: str_int_def str_nat.simps digit_char_def)

text \<open>
  C4, amended. The Rational formatter returns the default when the value is absent. A
  present rational whose denominator is zero is not treated as absent: the formatter
  returns the text of the numerator followed by \<open>/0\<close>. It raises in neither case.
\<close>

theorem fraction_to_readable_absent_or_zero_denominator:
  "fraction_to_readable None default_value = Inr default_value \<and>
   fraction_to_readable
     (Some \<lparr>ifd_printable = p, ifd_values = RatioValues (Ratio n 0 # rest)\<rparr>) default_value =
     Inr (str_int n @ ''/0'')"
  by (simp add: fraction_to_readable_def str_ratio_def str_int_0)

text \<open>
  The claim as stated fails at the rational 1/0 with the default \<open>N/A\<close>: the formatter
  returns \<open>1/0\<close>.
\<close>

theorem fraction_to_readable_zero_denominator_counterexample:
  "fraction_to_readable
     (Some \<lparr>ifd_printable = ''1/0'', ifd_values = RatioValues [Ratio 1 0]\<rparr>) ''N/A'' = Inr ''1/0'' \<and>
   fraction_to_readable
     (Some \<lparr>ifd_printable = ''1/0'', ifd_values = RatioValues [Ratio 1 0]\<rparr>) ''N/A'' \<noteq> Inr ''N/A''"
  by (simp add: fraction_to_readable_def str_ratio_def str_int_def str_nat.simps digit_char_def)

section \<open>Properties of the GPS converter\<close>

lemma int_div_pos: "0 < g \<Longrightarrow> g dvd d \<Longrightarrow> 0 < (d::int) \<Longrightarrow> 0 < d div g"
  by (metis pos_imp_zdiv_pos_iff zdvd_imp_le)

lemma ratio_den_pos: "d \<noteq> 0 \<Longrightarrow> 0 < ratio_den (Ratio n d)"
proof -
  assume d: "d \<noteq> 0"
  have g: "0 < gcd n d" using d by simp
  show ?thesis
  proof (cases "d < 0")
    case True
    have "d div (- gcd n d) = (- d) div gcd n d" by (metis div_minus_right)
    moreover have "0 < (- d) div gcd n d"
      using g True by (intro int_div_pos) simp_all
    ultimately show ?thesis using d True by simp
  next
    case False
    then have "0 < d" using d by simp
    then have "0 < d div gcd n d"
      using g by (intro int_div_pos) simp_all
    then show ?thesis using d False by simp
  qed
qed

lemma float_of_int_nonzero: "i \<noteq> 0 \<Longrightarrow> fmag (float_of_int i) \<noteq> 0"
proof -
  assume "i \<noteq> 0"
  then have "(1::rat) \<le> of_int \<bar>i\<bar>" by simp
  then have "0 < round_b64 (of_int \<bar>i\<bar>)" by (rule round_b64_pos)
  then show ?thesis by (simp add: float_of_int_def)
qed

lemma ratio_to_float_ok:
  "i < length rs \<Longrightarrow> raw_den (rs ! i) \<noteq> 0 \<Longrightarrow>
   ratio_to_float (RatioValues rs) i = Inr (float_of_ratio (rs ! i))"
  by (cases "rs ! i")
     (simp add: ratio_to_float_def float_div_def float_of_ratio_def raw_den_def
        float_of_int_nonzero less_imp_neq [OF ratio_den_pos, symmetric] del: ratio_den.simps)

lemma ratio_to_float_zero:
  "i < length rs \<Longrightarrow> raw_den (rs ! i) = 0 \<Longrightarrow>
   ratio_to_float (RatioValues rs) i = Inl ZeroDivisionError"
  by (cases "rs ! i")
     (simp add: ratio_to_float_def float_div_def raw_den_def float_of_int_def round_b64_def)


lemma convert_to_degrees_ok:
  assumes "ifd_values v = RatioValues (d # m # s # rest)"
    and "raw_den d \<noteq> 0" and "raw_den m \<noteq> 0" and "raw_den s \<noteq> 0"
  shows "convert_to_degrees v = Inr (decimal_degrees d m s)"
proof -
  have "ratio_to_float (RatioValues (d # m # s # rest)) 0 = Inr (float_of_ratio d)"
    using ratio_to_float_ok [of 0 "d # m # s # rest"] assms(2) by simp
  moreover have "ratio_to_float (RatioValues (d # m # s # rest)) 1 = Inr (float_of_ratio m)"
    using ratio_to_float_ok [of 1 "d # m # s # rest"] assms(3) by simp
  moreover have "ratio_to_float (RatioValues (d # m # s # rest)) 2 = Inr (float_of_ratio s)"
    using ratio_to_float_ok [of 2 "d # m # s # rest"] assms(4) by simp
  ultimately show ?thesis
    by (simp add: convert_to_degrees_def decimal_degrees_def assms(1))
qed

lemma float_add_b64: "round_b64 (fmag (float_add a b)) = fmag (float_add a b)"
  by (simp add: float_add_def Let_def round_b64_idem) (simp add: round_b64_def)

lemma float_of_int_minus_one: "float_of_int (- 1) = PyFloat True 1"
  by (simp add: float_of_int_def round_b64_def floor_log2_def quotient_of_int compute_floorlog
        pow2_def round_half_even_def)

lemma float_mul_minus_one:
  "round_b64 (fmag x) = fmag x \<Longrightarrow> float_mul x (float_of_int (- 1)) = float_negate x"
  by (simp add: float_mul_def float_of_int_minus_one float_negate_def)

lemma decimal_degrees_negate:
  "float_mul (decimal_degrees d m s) (float_of_int (- 1)) = float_negate (decimal_degrees d m s)"
  unfolding decimal_degrees_def by (rule float_mul_minus_one) (rule float_add_b64)

lemma gps_position_present:
  assumes "tgs ''GPS GPSLatitude'' = Some lat" and "tgs ''GPS GPSLatitudeRef'' = Some lat_ref"
    and "tgs ''GPS GPSLongitude'' = Some lon" and "tgs ''GPS GPSLongitudeRef'' = Some lon_ref"
    and "ifd_values lat = RatioValues (d1 # m1 # s1 # lat_rest)"
    and "raw_den d1 \<noteq> 0" and "raw_den m1 \<noteq> 0" and "raw_den s1 \<noteq> 0"
    and "ifd_values lon = RatioValues (d2 # m2 # s2 # lon_rest)"
    and "raw_den d2 \<noteq> 0" and "raw_den m2 \<noteq> 0" and "raw_den s2 \<noteq> 0"
    and "py_index (ifd_values lat_ref) 0 = Inr r1"
    and "py_index (ifd_values lon_ref) 0 = Inr r2"
  shows "gps_position tgs =
     Inr [(''Latitude'',
             format_fixed 5
               (if r1 = StrItem ''S'' then float_negate (decimal_degrees d1 m1 s1)
                else decimal_degrees d1 m1 s1) @
             [degree_sign] @ '' '' @ (if r1 = StrItem ''S'' then ''S'' else ''N'')),
          (''Longitude'',
             format_fixed 5
               (if r2 = StrItem ''W'' then float_negate (decimal_degrees d2 m2 s2)
                else decimal_degrees d2 m2 s2) @
             [degree_sign] @ '' '' @ (if r2 = StrItem ''W'' then ''W'' else ''E'')),
          (''Google Maps Link'',
             ''https://www.google.com/maps?q='' @
             float_repr
               (if r1 = StrItem ''S'' then float_negate (decimal_degrees d1 m1 s1)
                else decimal_degrees d1 m1 s1) @
             '','' @
             float_repr
               (if r2 = StrItem ''W'' then float_negate (decimal_degrees d2 m2 s2)
                else decimal_degrees d2 m2 s2))]"
proof -
  have lat: "convert_to_degrees lat = Inr (decimal_degrees d1 m1 s1)"
    using assms(5-8) by (rule convert_to_degrees_ok)
  have lon: "convert_to_degrees lon = Inr (decimal_degrees d2 m2 s2)"
    using assms(9-12) by (rule convert_to_degrees_ok)
  show ?thesis
    by (simp add: gps_position_def assms(1-4) lat lon first_is_def assms(13,14)
          decimal_degrees_negate Let_def)
qed


subsection \<open>Evaluating the scenario\<close>

lemma replicate_numeral: "replicate (numeral k) x = x # replicate (pred_numeral k) x"
  by (simp add: numeral_eq_Suc)

lemma floor_rat_numeral_div [simp]:
  "\<lfloor>numeral a / numeral b :: rat\<rfloor> = numeral a div numeral b"
  by (metis floor_divide_of_int_eq of_int_numeral)

lemmas str_eval = str_nat.simps digit_char_def pad_zeros_def replicate_numeral str_int_def

lemmas round_eval =
  round_b64_def floor_log2_def quotient_of_int compute_floorlog pow2_def round_half_even_def

lemma round_b64_0 [simp]: "round_b64 0 = 0"
  by (simp add: round_b64_def)

lemma round_b64_values:
  "round_b64 1 = 1" "round_b64 10 = 10" "round_b64 40 = 40" "round_b64 50 = 50"
  "round_b64 70 = 70" "round_b64 74 = 74" "round_b64 75 = 75" "round_b64 80 = 80"
  by (simp_all add: round_eval)

lemma float_of_ratio_values:
  "float_of_ratio (Ratio 0 1) = PyFloat False 0"
  "float_of_ratio (Ratio 10 1) = PyFloat False 10"
  "float_of_ratio (Ratio 40 1) = PyFloat False 40"
  "float_of_ratio (Ratio 74 1) = PyFloat False 74"
  by (simp_all add: float_of_ratio_def float_quot_def float_of_int_def round_b64_values)

lemma decimal_degrees_40: "decimal_degrees (Ratio 40 1) (Ratio 0 1) (Ratio 0 1) = PyFloat False 40"
  by (simp add: decimal_degrees_def float_of_ratio_values float_quot_def float_add_def
        signed_value_def round_b64_values Let_def)

lemma decimal_degrees_74: "decimal_degrees (Ratio 74 1) (Ratio 0 1) (Ratio 0 1) = PyFloat False 74"
  by (simp add: decimal_degrees_def float_of_ratio_values float_quot_def float_add_def
        signed_value_def round_b64_values Let_def)

lemma format_40: "format_fixed 5 (PyFloat False 40) = ''40.00000''"
  by (simp add: format_fixed_def round_half_even_def str_eval)

lemma format_74: "format_fixed 5 (PyFloat True 74) = ''-74.00000''"
  by (simp add: format_fixed_def round_half_even_def str_eval)

lemma format_10: "format_fixed 2 (PyFloat False 10) = ''10.00''"
  by (simp add: format_fixed_def round_half_even_def str_eval)

lemma upt_1_18: "[1..<18] = 1 # 2 # [3..<18]"
  by (simp add: upt_conv_Cons)

lemma shortest_digits_1: "digits_at m 1 = Some r \<Longrightarrow> shortest_digits m = r"
  by (simp only: shortest_digits_def upt_1_18 first_digits.simps option.case)

lemma shortest_digits_2:
  "digits_at m 1 = None \<Longrightarrow> digits_at m 2 = Some r \<Longrightarrow> shortest_digits m = r"
  by (simp only: shortest_digits_def upt_1_18 first_digits.simps option.case)

lemma digits_40: "digits_at 40 1 = Some (4, 1)"
  by (simp add: digits_at_def decpt_def compute_floorlog pow10_def round_b64_values Let_def)

lemma digits_74_1: "digits_at 74 1 = None"
  by (simp add: digits_at_def decpt_def compute_floorlog pow10_def round_b64_values Let_def)

lemma digits_74_2: "digits_at 74 2 = Some (74, 0)"
  by (simp add: digits_at_def decpt_def compute_floorlog pow10_def round_b64_values Let_def)

lemma repr_40: "float_repr (PyFloat False 40) = ''40.0''"
  by (simp add: float_repr_def shortest_digits_1 [OF digits_40] strip_trailing_zeros_def str_eval)

lemma repr_74: "float_repr (PyFloat True 74) = ''-74.0''"
  by (simp add: float_repr_def shortest_digits_2 [OF digits_74_1 digits_74_2]
        strip_trailing_zeros_def str_eval)

lemma gps_position_example:
  "gps_position example_gps_tags =
     Inr [(''Latitude'', ''40.00000'' @ [degree_sign] @ '' N''),
          (''Longitude'', ''-74.00000'' @ [degree_sign] @ '' W''),
          (''Google Maps Link'', ''https://www.google.com/maps?q=40.0,-74.0'')]"
proof -
  have "gps_position example_gps_tags =
     Inr [(''Latitude'',
             format_fixed 5
               (if StrItem ''N'' = StrItem ''S''
                then float_negate (decimal_degrees (Ratio 40 1) (Ratio 0 1) (Ratio 0 1))
                else decimal_degrees (Ratio 40 1) (Ratio 0 1) (Ratio 0 1)) @
             [degree_sign] @ '' '' @ (if StrItem ''N'' = StrItem ''S'' then ''S'' else ''N'')),
          (''Longitude'',
             format_fixed 5
               (if StrItem ''W'' = StrItem ''W''
                then float_negate (decimal_degrees (Ratio 74 1) (Ratio 0 1) (Ratio 0 1))
                else decimal_degrees (Ratio 74 1) (Ratio 0 1) (Ratio 0 1)) @
             [degree_sign] @ '' '' @ (if StrItem ''W'' = StrItem ''W'' then ''W'' else ''E'')),
          (''Google Maps Link'',
             ''https://www.google.com/maps?q='' @
             float_repr
               (if StrItem ''N'' = StrItem ''S''
                then float_negate (decimal_degrees (Ratio 40 1) (Ratio 0 1) (Ratio 0 1))
                else decimal_degrees (Ratio 40 1) (Ratio 0 1) (Ratio 0 1)) @
             '','' @
             float_repr
               (if StrItem ''W'' = StrItem ''W''
                then float_negate (decimal_degrees (Ratio 74 1) (Ratio 0 1) (Ratio 0 1))
                else decimal_degrees (Ratio 74 1) (Ratio 0 1) (Ratio 0 1)))]"
    by (rule gps_position_present [where lat_rest = "[]" and lon_rest = "[]"])
       (simp add: example_gps_tags_def raw_den_def)+
  then show ?thesis
    by (simp add: decimal_degrees_40 decimal_degrees_74 float_negate_def format_40 format_74
          repr_40 repr_74)
qed

lemma gps_altitude_absent: "tgs ''GPS GPSAltitude'' = None \<Longrightarrow> gps_altitude tgs = Inr []"
  by (simp add: gps_altitude_def)

lemma extract_gps_info_example:
  "extract_gps_info example_gps_tags =
     Inr (Fields
       [(''Latitude'', PStr (''40.00000'' @ [degree_sign] @ '' N'')),
        (''Longitude'', PStr (''-74.00000'' @ [degree_sign] @ '' W'')),
        (''Google Maps Link'', PStr ''https://www.google.com/maps?q=40.0,-74.0'')])"
proof -
  have "gps_altitude example_gps_tags = Inr []"
    by (rule gps_altitude_absent) (simp add: example_gps_tags_def)
  then show ?thesis
    by (simp add: extract_gps_info_def gps_position_example str_fields_def)
qed


lemma gps_position_absent:
  "tgs ''GPS GPSLatitude'' = None \<or> tgs ''GPS GPSLatitudeRef'' = None \<or>
   tgs ''GPS GPSLongitude'' = None \<or> tgs ''GPS GPSLongitudeRef'' = None \<Longrightarrow>
   gps_position tgs = Inr []"
  by (auto simp: gps_position_def split: option.splits)

lemma gps_altitude_present:
  "tgs ''GPS GPSAltitude'' = Some alt \<Longrightarrow> ifd_values alt = RatioValues (r # rest) \<Longrightarrow>
   raw_den r \<noteq> 0 \<Longrightarrow>
   gps_altitude tgs = Inr [(''Altitude'', format_fixed 2 (float_of_ratio r) @ '' meters'')]"
  using ratio_to_float_ok [of 0 "r # rest"] by (simp add: gps_altitude_def)

lemma extract_gps_info_altitude_only:
  "extract_gps_info altitude_only_tags = Inr (Fields [(''Altitude'', PStr ''10.00 meters'')])"
proof -
  have "gps_position altitude_only_tags = Inr []"
    by (rule gps_position_absent) (simp add: altitude_only_tags_def)
  moreover have "gps_altitude altitude_only_tags =
      Inr [(''Altitude'', format_fixed 2 (float_of_ratio (Ratio 10 1)) @ '' meters'')]"
    by (rule gps_altitude_present [where rest = "[]"]) (simp add: altitude_only_tags_def raw_den_def)+
  ultimately show ?thesis
    by (simp add: extract_gps_info_def str_fields_def float_of_ratio_values format_10)
qed

text \<open>
  C2, amended. When one of the four position tags (latitude, latitude ref, longitude,
  longitude ref) is missing and no Altitude tag is present, the GPS section is the string
  \<open>N/A\<close>. When an Altitude tag is present (a rational with a non-zero denominator), the
  section is a mapping with the single field Altitude instead.
\<close>

theorem gps_section_without_position:
  assumes "tgs ''GPS GPSLatitude'' = None \<or> tgs ''GPS GPSLatitudeRef'' = None \<or>
           tgs ''GPS GPSLongitude'' = None \<or> tgs ''GPS GPSLongitudeRef'' = None"
  shows "(tgs ''GPS GPSAltitude'' = None \<longrightarrow> extract_gps_info tgs = Inr (Sentinel ''N/A'')) \<and>
         (\<forall>alt r rest.
            tgs ''GPS GPSAltitude'' = Some alt \<and> ifd_values alt = RatioValues (r # rest) \<and>
            raw_den r \<noteq> 0 \<longrightarrow>
            extract_gps_info tgs =
              Inr (Fields [(''Altitude'', PStr (format_fixed 2 (float_of_ratio r) @ '' meters''))]))"
proof (intro conjI impI allI)
  assume "tgs ''GPS GPSAltitude'' = None"
  then show "extract_gps_info tgs = Inr (Sentinel ''N/A'')"
    by (simp add: extract_gps_info_def gps_position_absent [OF assms] gps_altitude_absent)
next
  fix alt r rest
  assume "tgs ''GPS GPSAltitude'' = Some alt \<and> ifd_values alt = RatioValues (r # rest) \<and>
          raw_den r \<noteq> 0"
  then have "gps_altitude tgs = Inr [(''Altitude'', format_fixed 2 (float_of_ratio r) @ '' meters'')]"
    by (blast intro: gps_altitude_present)
  then show "extract_gps_info tgs =
      Inr (Fields [(''Altitude'', PStr (format_fixed 2 (float_of_ratio r) @ '' meters''))])"
    by (simp add: extract_gps_info_def gps_position_absent [OF assms] str_fields_def)
qed

theorem gps_section_without_position_witness:
  "extract_gps_info Map.empty = Inr (Sentinel ''N/A'') \<and>
   extract_gps_info altitude_only_tags = Inr (Fields [(''Altitude'', PStr ''10.00 meters'')])"
proof -
  have "extract_gps_info Map.empty = Inr (Sentinel ''N/A'')"
    using gps_section_without_position [of Map.empty] by simp
  moreover have "extract_gps_info altitude_only_tags =
      Inr (Fields [(''Altitude'', PStr (format_fixed 2 (float_of_ratio (Ratio 10 1)) @ '' meters''))])"
    using gps_section_without_position [of altitude_only_tags]
    by (simp add: altitude_only_tags_def raw_den_def)
  ultimately show ?thesis
    by (simp add: float_of_ratio_values format_10)
qed

text \<open>
  The claim as stated fails when only an Altitude tag is present: latitude is missing,
  and the GPS section is a mapping with the field Altitude, not \<open>N/A\<close>.
\<close>

theorem gps_altitude_alone_counterexample:
  "altitude_only_tags ''GPS GPSLatitude'' = None \<and>
   (extract_gps_info altitude_only_tags :: error + unit report_section) =
     Inr (Fields [(''Altitude'', PStr ''10.00 meters'')]) \<and>
   (extract_gps_info altitude_only_tags :: error + unit report_section) \<noteq> Inr (Sentinel ''N/A'')"
  by (simp add: extract_gps_info_altitude_only) (simp add: altitude_only_tags_def)

lemma signed_value_negate: "signed_value (float_negate x) = - signed_value x"
  by (simp add: signed_value_def float_negate_def)

text \<open>
  C3, amended. For latitude (40,0,0) with ref N and longitude (74,0,0) with ref W the GPS
  converter produces Latitude \<open>40.00000\<degree> N\<close>, Longitude \<open>-74.00000\<degree> W\<close> (the signed
  decimal, followed by the hemisphere letter) and the map link
  \<open>https://www.google.com/maps?q=40.0,-74.0\<close>. In general, when the four tags are
  present, both triplets hold three rationals with non-zero denominators and both refs have
  a first element, each triplet combines as degrees + minutes/60 + seconds/3600 in float
  arithmetic, ref S negates the latitude, ref W negates the longitude, and any other ref
  leaves the sign unchanged.
\<close>

theorem gps_converter:
  "extract_gps_info example_gps_tags =
     Inr (Fields
       [(''Latitude'', PStr (''40.00000'' @ [degree_sign] @ '' N'')),
        (''Longitude'', PStr (''-74.00000'' @ [degree_sign] @ '' W'')),
        (''Google Maps Link'', PStr ''https://www.google.com/maps?q=40.0,-74.0'')]) \<and>
   (\<forall>(tgs::tags) lat lat_ref lon lon_ref d1 m1 s1 lat_rest d2 m2 s2 lon_rest r1 r2.
      tgs ''GPS GPSLatitude'' = Some lat \<and> tgs ''GPS GPSLatitudeRef'' = Some lat_ref \<and>
      tgs ''GPS GPSLongitude'' = Some lon \<and> tgs ''GPS GPSLongitudeRef'' = Some lon_ref \<and>
      ifd_values lat = RatioValues (d1 # m1 # s1 # lat_rest) \<and>
      raw_den d1 \<noteq> 0 \<and> raw_den m1 \<noteq> 0 \<and> raw_den s1 \<noteq> 0 \<and>
      ifd_values lon = RatioValues (d2 # m2 # s2 # lon_rest) \<and>
      raw_den d2 \<noteq> 0 \<and> raw_den m2 \<noteq> 0 \<and> raw_den s2 \<noteq> 0 \<and>
      py_index (ifd_values lat_ref) 0 = Inr r1 \<and> py_index (ifd_values lon_ref) 0 = Inr r2 \<longrightarrow>
      gps_position tgs =
        Inr [(''Latitude'',
                format_fixed 5
                  (if r1 = StrItem ''S'' then float_negate (decimal_degrees d1 m1 s1)
                   else decimal_degrees d1 m1 s1) @
                [degree_sign] @ '' '' @ (if r1 = StrItem ''S'' then ''S'' else ''N'')),
             (''Longitude'',
                format_fixed 5
                  (if r2 = StrItem ''W'' then float_negate (decimal_degrees d2 m2 s2)
                   else decimal_degrees d2 m2 s2) @
                [degree_sign] @ '' '' @ (if r2 = StrItem ''W'' then ''W'' else ''E'')),
             (''Google Maps Link'',
                ''https://www.google.com/maps?q='' @
                float_repr
                  (if r1 = StrItem ''S'' then float_negate (decimal_degrees d1 m1 s1)
                   else decimal_degrees d1 m1 s1) @
                '','' @
                float_repr
                  (if r2 = StrItem ''W'' then float_negate (decimal_degrees d2 m2 s2)
                   else decimal_degrees d2 m2 s2))]) \<and>
   (\<forall>x. signed_value (float_negate x) = - signed_value x)"
proof (intro conjI allI impI)
  show "extract_gps_info example_gps_tags =
     Inr (Fields
       [(''Latitude'', PStr (''40.00000'' @ [degree_sign] @ '' N'')),
        (''Longitude'', PStr (''-74.00000'' @ [degree_sign] @ '' W'')),
        (''Google Maps Link'', PStr ''https://www.google.com/maps?q=40.0,-74.0'')])"
    by (rule extract_gps_info_example)
next
  fix x show "signed_value (float_negate x) = - signed_value x"
    by (rule signed_value_negate)
next
  fix tgs :: tags and lat lat_ref lon lon_ref d1 m1 s1 lat_rest d2 m2 s2 lon_rest r1 r2
  assume h: "tgs ''GPS GPSLatitude'' = Some lat \<and> tgs ''GPS GPSLatitudeRef'' = Some lat_ref \<and>
      tgs ''GPS GPSLongitude'' = Some lon \<and> tgs ''GPS GPSLongitudeRef'' = Some lon_ref \<and>
      ifd_values lat = RatioValues (d1 # m1 # s1 # lat_rest) \<and>
      raw_den d1 \<noteq> 0 \<and> raw_den m1 \<noteq> 0 \<and> raw_den s1 \<noteq> 0 \<and>
      ifd_values lon = RatioValues (d2 # m2 # s2 # lon_rest) \<and>
      raw_den d2 \<noteq> 0 \<and> raw_den m2 \<noteq> 0 \<and> raw_den s2 \<noteq> 0 \<and>
      py_index (ifd_values lat_ref) 0 = Inr r1 \<and> py_index (ifd_values lon_ref) 0 = Inr r2"
  show "gps_position tgs =
        Inr [(''Latitude'',
                format_fixed 5
                  (if r1 = StrItem ''S'' then float_negate (decimal_degrees d1 m1 s1)
                   else decimal_degrees d1 m1 s1) @
                [degree_sign] @ '' '' @ (if r1 = StrItem ''S'' then ''S'' else ''N'')),
             (''Longitude'',
                format_fixed 5
                  (if r2 = StrItem ''W'' then float_negate (decimal_degrees d2 m2 s2)
                   else decimal_degrees d2 m2 s2) @
                [degree_sign] @ '' '' @ (if r2 = StrItem ''W'' then ''W'' else ''E'')),
             (''Google Maps Link'',
                ''https://www.google.com/maps?q='' @
                float_repr
                  (if r1 = StrItem ''S'' then float_negate (decimal_degrees d1 m1 s1)
                   else decimal_degrees d1 m1 s1) @
                '','' @
                float_repr
                  (if r2 = StrItem ''W'' then float_negate (decimal_degrees d2 m2 s2)
                   else decimal_degrees d2 m2 s2))]"
    by (rule gps_position_present [where lat_rest = lat_rest and lon_rest = lon_rest])
       (use h in blast)+
qed

theorem gps_converter_witness:
  "gps_position example_gps_tags =
     Inr [(''Latitude'', ''40.00000'' @ [degree_sign] @ '' N''),
          (''Longitude'', ''-74.00000'' @ [degree_sign] @ '' W''),
          (''Google Maps Link'', ''https://www.google.com/maps?q=40.0,-74.0'')]"
proof -
  have general: "\<And>(tgs::tags) lat lat_ref lon lon_ref d1 m1 s1 lat_rest d2 m2 s2 lon_rest r1 r2.
      tgs ''GPS GPSLatitude'' = Some lat \<and> tgs ''GPS GPSLatitudeRef'' = Some lat_ref \<and>
      tgs ''GPS GPSLongitude'' = Some lon \<and> tgs ''GPS GPSLongitudeRef'' = Some lon_ref \<and>
      ifd_values lat = RatioValues (d1 # m1 # s1 # lat_rest) \<and>
      raw_den d1 \<noteq> 0 \<and> raw_den m1 \<noteq> 0 \<and> raw_den s1 \<noteq> 0 \<and>
      ifd_values lon = RatioValues (d2 # m2 # s2 # lon_rest) \<and>
      raw_den d2 \<noteq> 0 \<and> raw_den m2 \<noteq> 0 \<and> raw_den s2 \<noteq> 0 \<and>
      py_index (ifd_values lat_ref) 0 = Inr r1 \<and> py_index (ifd_values lon_ref) 0 = Inr r2 \<Longrightarrow>
      gps_position tgs =
        Inr [(''Latitude'',
                format_fixed 5
                  (if r1 = StrItem ''S'' then float_negate (decimal_degrees d1 m1 s1)
                   else decimal_degrees d1 m1 s1) @
                [degree_sign] @ '' '' @ (if r1 = StrItem ''S'' then ''S'' else ''N'')),
             (''Longitude'',
                format_fixed 5
                  (if r2 = StrItem ''W'' then float_negate (decimal_degrees d2 m2 s2)
                   else decimal_degrees d2 m2 s2) @
                [degree_sign] @ '' '' @ (if r2 = StrItem ''W'' then ''W'' else ''E'')),
             (''Google Maps Link'',
                ''https://www.google.com/maps?q='' @
                float_repr
                  (if r1 = StrItem ''S'' then float_negate (decimal_degrees d1 m1 s1)
                   else decimal_degrees d1 m1 s1) @
                '','' @
                float_repr
                  (if r2 = StrItem ''W'' then float_negate (decimal_degrees d2 m2 s2)
                   else decimal_degrees d2 m2 s2))]"
    using gps_converter by blast
  have "gps_position example_gps_tags =
        Inr [(''Latitude'',
                format_fixed 5
                  (if StrItem ''N'' = StrItem ''S''
                   then float_negate (decimal_degrees (Ratio 40 1) (Ratio 0 1) (Ratio 0 1))
                   else decimal_degrees (Ratio 40 1) (Ratio 0 1) (Ratio 0 1)) @
                [degree_sign] @ '' '' @ (if StrItem ''N'' = StrItem ''S'' then ''S'' else ''N'')),
             (''Longitude'',
                format_fixed 5
                  (if StrItem ''W'' = StrItem ''W''
                   then float_negate (decimal_degrees (Ratio 74 1) (Ratio 0 1) (Ratio 0 1))
                   else decimal_degrees (Ratio 74 1) (Ratio 0 1) (Ratio 0 1)) @
                [degree_sign] @ '' '' @ (if StrItem ''W'' = StrItem ''W'' then ''W'' else ''E'')),
             (''Google Maps Link'',
                ''https://www.google.com/maps?q='' @
                float_repr
                  (if StrItem ''N'' = StrItem ''S''
                   then float_negate (decimal_degrees (Ratio 40 1) (Ratio 0 1) (Ratio 0 1))
                   else decimal_degrees (Ratio 40 1) (Ratio 0 1) (Ratio 0 1)) @
                '','' @
                float_repr
                  (if StrItem ''W'' = StrItem ''W''
                   then float_negate (decimal_degrees (Ratio 74 1) (Ratio 0 1) (Ratio 0 1))
                   else decimal_degrees (Ratio 74 1) (Ratio 0 1) (Ratio 0 1)))]"
    by (rule general [where lat_rest = "[]" and lon_rest = "[]"
          and lat = "\<lparr>ifd_printable = ''[40, 0, 0]'',
                       ifd_values = RatioValues [Ratio 40 1, Ratio 0 1, Ratio 0 1]\<rparr>"
          and lon = "\<lparr>ifd_printable = ''[74, 0, 0]'',
                       ifd_values = RatioValues [Ratio 74 1, Ratio 0 1, Ratio 0 1]\<rparr>"
          and lat_ref = "\<lparr>ifd_printable = ''N'', ifd_values = AsciiValues ''N''\<rparr>"
          and lon_ref = "\<lparr>ifd_printable = ''W'', ifd_values = AsciiValues ''W''\<rparr>"])
       (simp add: example_gps_tags_def raw_den_def)
  then show ?thesis
    by (simp add: decimal_degrees_40 decimal_degrees_74 float_negate_def format_40 format_74
          repr_40 repr_74)
qed

text \<open>
  The claim as stated fails at its own input: the Longitude field keeps the sign of the
  signed decimal, \<open>-74.00000\<degree> W\<close>, and is not \<open>74.00000\<degree> W\<close>.
\<close>

theorem gps_longitude_text_counterexample:
  "section_field (extract_gps_info example_gps_tags :: error + unit report_section) ''Longitude'' =
     Some (PStr (''-74.00000'' @ [degree_sign] @ '' W'')) \<and>
   section_field (extract_gps_info example_gps_tags :: error + unit report_section) ''Longitude'' \<noteq>
     Some (PStr (''74.00000'' @ [degree_sign] @ '' W''))"
  by (simp add: extract_gps_info_example section_field_def)

section \<open>Properties of the report assembler\<close>

lemma isl_iff_not_Inr: "isl x \<longleftrightarrow> (\<forall>r. x \<noteq> Inr r)"
  by (cases x) simp_all

lemma isl_collect: "isl (collect kvs) \<longleftrightarrow> (\<exists>kv \<in> set kvs. isl (snd kv))"
  by (induction kvs rule: collect.induct) (auto split: sum.splits)

lemma isl_py_index_0:
  "isl (py_index vs 0) \<longleftrightarrow>
     (case vs of RatioValues rs \<Rightarrow> rs = [] | IntValues xs \<Rightarrow> xs = [] | AsciiValues s \<Rightarrow> s = [])"
  by (cases vs) simp_all

lemma isl_fraction_to_readable: "isl (fraction_to_readable f d) \<longleftrightarrow> \<not> rational_ok f"
proof (cases f)
  case None
  then show ?thesis by (simp add: fraction_to_readable_def rational_ok_def)
next
  case (Some t)
  show ?thesis
  proof (cases "ifd_values t")
    case (AsciiValues s)
    then show ?thesis using Some
      by (cases s; cases "tl s") (auto simp: fraction_to_readable_def rational_ok_def)
  next
    case (IntValues xs)
    then show ?thesis using Some
      by (cases xs; cases "tl xs") (auto simp: fraction_to_readable_def rational_ok_def)
  next
    case (RatioValues rs)
    then show ?thesis using Some
      by (cases rs) (auto simp: fraction_to_readable_def rational_ok_def)
  qed
qed

lemma isl_code_case:
  "isl (case f of None \<Rightarrow> Inr a
        | Some t \<Rightarrow> (case py_index (ifd_values t) 0 of Inl e \<Rightarrow> Inl e | Inr v \<Rightarrow> Inr (g v))) \<longleftrightarrow>
   \<not> code_ok f"
  by (cases f) (auto simp: code_ok_def isl_py_index_0 split: sum.splits tag_values.splits)

lemma isl_resolvers:
  "isl (get_exposure_mode tgs) \<longleftrightarrow> \<not> code_ok (tgs ''EXIF ExposureMode'')"
  "isl (get_white_balance tgs) \<longleftrightarrow> \<not> code_ok (tgs ''EXIF WhiteBalance'')"
  "isl (get_metering_mode tgs) \<longleftrightarrow> \<not> code_ok (tgs ''EXIF MeteringMode'')"
  "isl (get_exposure_program tgs) \<longleftrightarrow> \<not> code_ok (tgs ''EXIF ExposureProgram'')"
  "isl (get_scene_capture_type tgs) \<longleftrightarrow> \<not> code_ok (tgs ''EXIF SceneCaptureType'')"
  "isl (get_color_space tgs) \<longleftrightarrow> \<not> code_ok (tgs ''EXIF ColorSpace'')"
  "isl (get_focus_mode tgs) \<longleftrightarrow> \<not> code_ok (tgs ''EXIF FocusMode'')"
  "isl (get_shooting_mode tgs) \<longleftrightarrow> \<not> code_ok (tgs ''EXIF ShootingMode'')"
  "isl (get_noise_reduction tgs) \<longleftrightarrow> \<not> code_ok (tgs ''EXIF NoiseReduction'')"
  "isl (get_orientation tgs) \<longleftrightarrow> \<not> code_ok (tgs ''Image Orientation'')"
  "isl (get_ycbcr_positioning tgs) \<longleftrightarrow> \<not> code_ok (tgs ''Image YCbCrPositioning'')"
  "isl (get_resolution_unit tgs) \<longleftrightarrow> \<not> code_ok (tgs ''Image ResolutionUnit'')"
  unfolding get_exposure_mode_def get_white_balance_def get_metering_mode_def
    get_exposure_program_def get_scene_capture_type_def get_color_space_def get_focus_mode_def
    get_shooting_mode_def get_noise_reduction_def get_orientation_def get_ycbcr_positioning_def
    get_resolution_unit_def
  by (rule isl_code_case)+

lemma isl_get_flash_info: "isl (get_flash_info tgs) \<longleftrightarrow> \<not> code_ok (tgs ''EXIF Flash'')"
  by (cases "tgs ''EXIF Flash''")
     (auto simp: get_flash_info_def code_ok_def isl_py_index_0 split: sum.splits tag_values.splits)

lemma isl_get_subject_area: "\<not> isl (get_subject_area tgs)"
  by (simp add: get_subject_area_def split: option.splits)

lemma isl_get_resolution:
  "isl (get_resolution tgs) \<longleftrightarrow>
     \<not> (rational_ok (tgs ''Image XResolution'') \<and> rational_ok (tgs ''Image YResolution'') \<and>
        code_ok (tgs ''Image ResolutionUnit''))"
  using isl_fraction_to_readable [of "tgs ''Image XResolution''" "''N/A''"]
    isl_fraction_to_readable [of "tgs ''Image YResolution''" "''N/A''"]
    isl_resolvers(12) [of tgs]
  by (auto simp: get_resolution_def split: sum.splits)

lemma isl_map_sum: "isl (map_sum f g x) \<longleftrightarrow> isl x"
  by (cases x) simp_all

lemma isl_camera_settings:
  "isl (camera_settings tgs) \<longleftrightarrow>
     \<not> (rational_ok (tgs ''EXIF ExposureTime'') \<and> rational_ok (tgs ''EXIF FNumber'') \<and>
        rational_ok (tgs ''EXIF FocalLength'') \<and> code_ok (tgs ''EXIF ExposureMode'') \<and>
        code_ok (tgs ''EXIF WhiteBalance'') \<and> code_ok (tgs ''EXIF Flash'') \<and>
        code_ok (tgs ''EXIF MeteringMode'') \<and> code_ok (tgs ''EXIF ExposureProgram'') \<and>
        rational_ok (tgs ''EXIF BrightnessValue'') \<and> rational_ok (tgs ''EXIF ExposureBiasValue'') \<and>
        rational_ok (tgs ''EXIF MaxApertureValue'') \<and> rational_ok (tgs ''EXIF DigitalZoomRatio'') \<and>
        code_ok (tgs ''EXIF SceneCaptureType'') \<and> rational_ok (tgs ''EXIF ShutterSpeedValue'') \<and>
        rational_ok (tgs ''EXIF ApertureValue'') \<and> code_ok (tgs ''EXIF ColorSpace'') \<and>
        code_ok (tgs ''EXIF FocusMode'') \<and> code_ok (tgs ''EXIF ShootingMode'') \<and>
        code_ok (tgs ''EXIF NoiseReduction''))"
  by (simp add: camera_settings_def isl_collect isl_fraction_to_readable isl_resolvers
        isl_get_flash_info isl_get_subject_area isl_map_sum)

lemma isl_other_details:
  "isl (other_details tgs p) \<longleftrightarrow>
     \<not> (code_ok (tgs ''Image Orientation'') \<and> code_ok (tgs ''Image YCbCrPositioning'') \<and>
        rational_ok (tgs ''Image XResolution'') \<and> rational_ok (tgs ''Image YResolution'') \<and>
        code_ok (tgs ''Image ResolutionUnit'') \<and> rational_ok (tgs ''EXIF SubjectDistance'') \<and>
        code_ok (tgs ''EXIF MeteringMode''))"
  by (auto simp: other_details_def isl_collect isl_fraction_to_readable isl_resolvers
        isl_get_resolution)


lemma isl_ratio_to_float:
  "isl (ratio_to_float vs i) \<longleftrightarrow>
     \<not> (case vs of RatioValues rs \<Rightarrow> i < length rs \<and> raw_den (rs ! i) \<noteq> 0 | _ \<Rightarrow> False)"
proof (cases vs)
  case (RatioValues rs)
  show ?thesis
  proof (cases "i < length rs")
    case True
    then show ?thesis
      using ratio_to_float_ok [of i rs] ratio_to_float_zero [of i rs]
      by (cases "raw_den (rs ! i) = 0") (simp_all add: RatioValues)
  next
    case False
    then show ?thesis by (simp add: RatioValues ratio_to_float_def)
  qed
qed (simp_all add: ratio_to_float_def)

lemma isl_convert_to_degrees: "isl (convert_to_degrees t) \<longleftrightarrow> \<not> triplet_ok t"
  using isl_ratio_to_float [of "ifd_values t" 0] isl_ratio_to_float [of "ifd_values t" 1]
    isl_ratio_to_float [of "ifd_values t" 2]
  by (auto simp: convert_to_degrees_def triplet_ok_def split: sum.splits tag_values.splits)

lemma isl_first_is: "isl (first_is t s) \<longleftrightarrow> \<not> code_ok (Some t)"
  by (auto simp: first_is_def code_ok_def isl_py_index_0 split: sum.splits tag_values.splits)

lemma isl_gps_altitude: "isl (gps_altitude tgs) \<longleftrightarrow> \<not> altitude_ok (tgs ''GPS GPSAltitude'')"
proof (cases "tgs ''GPS GPSAltitude''")
  case None
  then show ?thesis by (simp add: gps_altitude_def altitude_ok_def)
next
  case (Some alt)
  then show ?thesis
    using isl_ratio_to_float [of "ifd_values alt" 0]
    by (auto simp: gps_altitude_def altitude_ok_def split: sum.splits tag_values.splits)
qed

lemma convert_to_degrees_Inl: "convert_to_degrees t = Inl e \<Longrightarrow> \<not> triplet_ok t"
  using isl_convert_to_degrees [of t] by simp

lemma convert_to_degrees_Inr: "convert_to_degrees t = Inr x \<Longrightarrow> triplet_ok t"
  using isl_convert_to_degrees [of t] by simp

lemma first_is_Inl: "first_is t s = Inl e \<Longrightarrow> \<not> code_ok (Some t)"
  using isl_first_is [of t s] by simp

lemma first_is_Inr: "first_is t s = Inr b \<Longrightarrow> code_ok (Some t)"
  using isl_first_is [of t s] by simp

lemma isl_gps_position:
  "isl (gps_position tgs) \<longleftrightarrow>
     \<not> (case tgs ''GPS GPSLatitude'' of None \<Rightarrow> True | Some lat \<Rightarrow>
        (case tgs ''GPS GPSLatitudeRef'' of None \<Rightarrow> True | Some lat_ref \<Rightarrow>
        (case tgs ''GPS GPSLongitude'' of None \<Rightarrow> True | Some lon \<Rightarrow>
        (case tgs ''GPS GPSLongitudeRef'' of None \<Rightarrow> True | Some lon_ref \<Rightarrow>
           triplet_ok lat \<and> triplet_ok lon \<and> code_ok (Some lat_ref) \<and> code_ok (Some lon_ref)))))"
  by (auto simp: gps_position_def Let_def split: option.splits sum.splits
        dest: convert_to_degrees_Inl convert_to_degrees_Inr first_is_Inl first_is_Inr)

lemma isl_extract_gps_info: "isl (extract_gps_info tgs) \<longleftrightarrow> \<not> gps_ok tgs"
  using isl_gps_position [of tgs] isl_gps_altitude [of tgs]
  by (auto simp: extract_gps_info_def gps_ok_def Let_def split: sum.splits)

lemma isl_tag_sections:
  "isl (tag_sections tgs p :: error + 'x report) \<longleftrightarrow>
     isl (camera_settings tgs) \<or> isl (extract_gps_info tgs :: error + 'x report_section) \<or>
     isl (other_details tgs p)"
  by (auto simp: tag_sections_def split: sum.splits)


lemma tags_readable_iff:
  "tags_readable tgs \<longleftrightarrow> \<not> isl (tag_sections tgs p :: error + 'x report)"
  unfolding isl_tag_sections isl_camera_settings isl_other_details isl_extract_gps_info
    tags_readable_def rational_tag_names_def code_tag_names_def
  by (simp only: list.pred_inject) blast

end
